theory Spec2Isabelle
  imports Complex_Main
begin

section \<open>JavaScript values used by the pipeline\<close>

text \<open>
  A JavaScript number is modelled by the rational it denotes, and a decimal numeral by its
  exact value: the code compares numbers with integer constants and adds small integers,
  which doubles do exactly; the rounding of a long decimal numeral to the nearest double is
  not modelled. Where the source can produce \<^verbatim>\<open>NaN\<close> (a failed \<^verbatim>\<open>parseInt\<close> or
  \<^verbatim>\<open>parseFloat\<close>) the value is an \<open>option\<close> with \<open>None\<close> for \<^verbatim>\<open>NaN\<close>; a comparison
  with \<^verbatim>\<open>NaN\<close> is false, as in the source. Strings are ASCII character lists, and
  an object is looked up by its own keys only.
\<close>

type_synonym jsnum = "rat option"

definition num_ge :: "rat \<Rightarrow> jsnum \<Rightarrow> bool" where
  "num_ge x b = (case b of None \<Rightarrow> False | Some m \<Rightarrow> m \<le> x)"

definition num_le :: "rat \<Rightarrow> jsnum \<Rightarrow> bool" where
  "num_le x b = (case b of None \<Rightarrow> False | Some m \<Rightarrow> x \<le> m)"

definition num_lt :: "rat \<Rightarrow> jsnum \<Rightarrow> bool" where
  "num_lt x b = (case b of None \<Rightarrow> False | Some m \<Rightarrow> x < m)"

definition num_times :: "jsnum \<Rightarrow> rat \<Rightarrow> jsnum" where
  "num_times a k = (case a of None \<Rightarrow> None | Some m \<Rightarrow> Some (m * k))"

subsection \<open>String primitives\<close>

definition is_digit :: "char \<Rightarrow> bool" where
  "is_digit c = (c \<in> set ''0123456789'')"

definition is_space :: "char \<Rightarrow> bool" where
  "is_space c = (c \<in> {CHR '' '', CHR 0x09, CHR 0x0A, CHR 0x0B, CHR 0x0C, CHR 0x0D})"

definition digit_val :: "char \<Rightarrow> nat" where
  "digit_val c = of_char c - 48"

text \<open>The value of a digit string, read left to right.\<close>

definition digits_val :: "string \<Rightarrow> nat" where
  "digits_val ds = foldl (\<lambda>acc c. 10 * acc + digit_val c) 0 ds"

definition lower_char :: "char \<Rightarrow> char" where
  "lower_char c = (if c \<in> set ''ABCDEFGHIJKLMNOPQRSTUVWXYZ''
                   then char_of (of_char c + (32::nat)) else c)"

definition toLowerCase :: "string \<Rightarrow> string" where
  "toLowerCase s = map lower_char s"

definition starts_with :: "string \<Rightarrow> string \<Rightarrow> bool" where
  "starts_with s p = (take (length p) s = p)"

text \<open>\<^verbatim>\<open>s.includes(sub)\<close>: \<open>sub\<close> occurs in \<open>s\<close> as a contiguous substring.\<close>

fun js_includes :: "string \<Rightarrow> string \<Rightarrow> bool" where
  "js_includes [] sub = (sub = [])"
| "js_includes (c # cs) sub = (starts_with (c # cs) sub \<or> js_includes cs sub)"

text \<open>\<^verbatim>\<open>s.split(c)\<close> for a one-character separator.\<close>

fun split_on :: "char \<Rightarrow> string \<Rightarrow> string list" where
  "split_on sep [] = [[]]"
| "split_on sep (c # cs) =
     (if c = sep then [] # split_on sep cs
      else (case split_on sep cs of
              [] \<Rightarrow> [[c]]
            | w # ws \<Rightarrow> (c # w) # ws))"

text \<open>\<^verbatim>\<open>s.replace(pat, '')\<close> with a string pattern: the first occurrence is removed.\<close>

fun remove_first :: "string \<Rightarrow> string \<Rightarrow> string" where
  "remove_first pat [] = []"
| "remove_first pat (c # cs) =
     (if starts_with (c # cs) pat then drop (length pat) (c # cs)
      else c # remove_first pat cs)"

text \<open>
  \<^verbatim>\<open>parseInt(s)\<close> in radix 10: leading white space, an optional sign, then the longest
  run of digits; \<^verbatim>\<open>NaN\<close> when there is no digit. (The hexadecimal prefix is not modelled:
  the source applies \<^verbatim>\<open>parseInt\<close> to pieces of its own table keys and to digit runs only.)
\<close>

definition parseInt :: "string \<Rightarrow> jsnum" where
  "parseInt s =
     (let t = dropWhile is_space s;
          neg = (t \<noteq> [] \<and> hd t = CHR ''-'');
          u = (if t \<noteq> [] \<and> (hd t = CHR ''-'' \<or> hd t = CHR ''+'') then tl t else t);
          ds = takeWhile is_digit u
      in if ds = [] then None
         else Some (if neg then - of_nat (digits_val ds) else of_nat (digits_val ds)))"

text \<open>Array access that yields \<^verbatim>\<open>undefined\<close> out of rng.\<close>

definition nth_opt :: "'a list \<Rightarrow> nat \<Rightarrow> 'a option" where
  "nth_opt xs i = (if i < length xs then Some (xs ! i) else None)"

section \<open>Policy Knowledge Store (rulesOfEngagement)\<close>

record discount_entry =
  max_d :: rat
  typical :: rat
  autoApproved :: rat

record regional_entry =
  additionalDiscount :: rat
  region_note :: string

record approval =
  approver :: string
  timeframe :: string

definition mk_entry :: "rat \<Rightarrow> rat \<Rightarrow> rat \<Rightarrow> discount_entry" where
  "mk_entry m t a = \<lparr>max_d = m, typical = t, autoApproved = a\<rparr>"

text \<open>\<^verbatim>\<open>rulesOfEngagement.discountPolicies.standard\<close>, keyed by deal type, then by segment.\<close>

definition standard_policies :: "(string \<times> (string \<times> discount_entry) list) list" where
  "standard_policies =
    [(''newBusiness'',
        [(''enterprise'', mk_entry 20 15 10),
         (''midmarket'', mk_entry 15 10 7),
         (''smb'', mk_entry 10 5 5),
         (''largeEnterprise'', mk_entry 25 20 15),
         (''globalAccounts'', mk_entry 30 25 20)]),
     (''renewal'',
        [(''enterprise'', mk_entry 15 10 8),
         (''midmarket'', mk_entry 12 8 5),
         (''smb'', mk_entry 8 3 3),
         (''largeEnterprise'', mk_entry 20 15 12),
         (''globalAccounts'', mk_entry 25 20 15)]),
     (''addon'',
        [(''all'', mk_entry 5 0 5)])]"

text \<open>\<^verbatim>\<open>rulesOfEngagement.discountPolicies.regional\<close>.\<close>

definition regional_policies :: "(string \<times> regional_entry) list" where
  "regional_policies =
    [(''namer'', \<lparr>additionalDiscount = 0, region_note = ''Standard rates apply''\<rparr>),
     (''latam'', \<lparr>additionalDiscount = 5, region_note = ''Market development pricing''\<rparr>),
     (''emea'', \<lparr>additionalDiscount = 3, region_note = ''Competitive market adjustment''\<rparr>),
     (''apac'', \<lparr>additionalDiscount = 7, region_note = ''Growth market incentive''\<rparr>)]"

text \<open>\<^verbatim>\<open>rulesOfEngagement.approvalWorkflow\<close>: the two bracket tables, in key order.\<close>

definition discountApproval_table :: "(string \<times> approval) list" where
  "discountApproval_table =
    [(''0-10%'', \<lparr>approver = ''Auto-approved'', timeframe = ''Immediate''\<rparr>),
     (''11-20%'', \<lparr>approver = ''Sales Manager'', timeframe = ''24 hours''\<rparr>),
     (''21-30%'', \<lparr>approver = ''Regional Director'', timeframe = ''48 hours''\<rparr>),
     (''31%+'', \<lparr>approver = ''VP Sales + Finance'', timeframe = ''72 hours''\<rparr>)]"

definition dealSizeApproval_table :: "(string \<times> approval) list" where
  "dealSizeApproval_table =
    [(''under50k'', \<lparr>approver = ''Sales Manager'', timeframe = ''24 hours''\<rparr>),
     (''50k-250k'', \<lparr>approver = ''Regional Director'', timeframe = ''48 hours''\<rparr>),
     (''250k-500k'', \<lparr>approver = ''VP Sales'', timeframe = ''72 hours''\<rparr>),
     (''500k+'', \<lparr>approver = ''VP Sales + CEO'', timeframe = ''1 week''\<rparr>)]"

subsection \<open>getDiscountPolicy\<close>

record discount_policy =
  p_max :: rat
  p_typical :: rat
  p_autoApproved :: rat
  regionalAdjustment :: rat
  effectiveMax :: rat

text \<open>
  The region parameter defaults to \<^verbatim>\<open>'namer'\<close> when it is not passed (\<open>None\<close>). A deal type or
  segment missing from the table gives \<^verbatim>\<open>null\<close> (\<open>None\<close>); an unknown region adjusts by 0.
\<close>

definition standardDiscount :: "string \<Rightarrow> string \<Rightarrow> discount_entry option" where
  "standardDiscount dealType segment =
     (case map_of standard_policies dealType of
        None \<Rightarrow> None
      | Some segs \<Rightarrow> map_of segs segment)"

definition regional_adjustment :: "string option \<Rightarrow> rat" where
  "regional_adjustment region_arg =
     (let region = (case region_arg of None \<Rightarrow> ''namer'' | Some r \<Rightarrow> r)
      in case map_of regional_policies region of
           None \<Rightarrow> 0
         | Some r \<Rightarrow> additionalDiscount r)"

definition getDiscountPolicy :: "string \<Rightarrow> string \<Rightarrow> string option \<Rightarrow> discount_policy option" where
  "getDiscountPolicy dealType segment region_arg =
     (let regAdj = regional_adjustment region_arg
      in case standardDiscount dealType segment of
           Some sd \<Rightarrow>
             Some \<lparr>p_max = max_d sd, p_typical = typical sd, p_autoApproved = autoApproved sd,
                   regionalAdjustment = regAdj, effectiveMax = max_d sd + regAdj\<rparr>
         | None \<Rightarrow> None)"

subsection \<open>getApprovalRequirement\<close>

text \<open>The predicate passed to \<^verbatim>\<open>find\<close> over the discount brackets.\<close>

definition discount_range_matches :: "rat \<Rightarrow> string \<Rightarrow> bool" where
  "discount_range_matches discountPercent rng =
     (if js_includes rng ''+'' then
        num_ge discountPercent (parseInt (hd (split_on (CHR ''%'') rng)))
      else
        (let parts = map parseInt (split_on (CHR ''-'') rng);
             mn = (case nth_opt parts 0 of None \<Rightarrow> None | Some v \<Rightarrow> v);
             mx = (case nth_opt parts 1 of None \<Rightarrow> None | Some v \<Rightarrow> v)
         in num_ge discountPercent mn \<and> num_le discountPercent mx))"

text \<open>The predicate passed to \<^verbatim>\<open>find\<close> over the deal-size brackets.\<close>

definition size_range_matches :: "rat \<Rightarrow> string \<Rightarrow> bool" where
  "size_range_matches dealSize rng =
     (if js_includes rng ''+'' then
        num_ge dealSize (num_times (parseInt (hd (split_on (CHR ''k'') rng))) 1000)
      else if js_includes rng ''-'' then
        (let parts = map (\<lambda>r. num_times (parseInt (remove_first ''k'' r)) 1000)
                         (split_on (CHR ''-'') rng);
             mn = (case nth_opt parts 0 of None \<Rightarrow> None | Some v \<Rightarrow> v);
             mx = (case nth_opt parts 1 of None \<Rightarrow> None | Some v \<Rightarrow> v)
         in num_ge dealSize mn \<and> num_le dealSize mx)
      else
        num_lt dealSize
          (num_times (parseInt (remove_first ''k'' (remove_first ''under'' rng))) 1000))"

datatype highest_level = Single "approval option" | Both "approval option" "approval option"

record approval_requirement =
  discountApproval :: "approval option"
  sizeApproval :: "approval option"
  highestLevel :: highest_level

definition getApprovalRequirement :: "rat \<Rightarrow> rat \<Rightarrow> approval_requirement" where
  "getApprovalRequirement discountPercent dealSize =
     (let da = map_option snd
                 (find (\<lambda>(rng, _). discount_range_matches discountPercent rng)
                       discountApproval_table);
          sa = map_option snd
                 (find (\<lambda>(rng, _). size_range_matches dealSize rng)
                       dealSizeApproval_table)
      in \<lparr>discountApproval = da,
          sizeApproval = sa,
          highestLevel = (if map_option approver da = map_option approver sa
                          then Single da else Both da sa)\<rparr>)"

section \<open>CaseDraft\<close>

text \<open>
  A numeric form field (\<^verbatim>\<open>dealValue\<close>, \<^verbatim>\<open>discountRequested\<close>) holds nothing (\<^verbatim>\<open>undefined\<close>
  or the empty string), a number, or a non-empty text; a text is represented by what
  \<^verbatim>\<open>parseFloat\<close> reads from it (\<open>None\<close> for \<^verbatim>\<open>NaN\<close>). That is all the source observes of such a
  field: its truthiness and its \<^verbatim>\<open>parseFloat\<close>.
\<close>

datatype num_field = Unset | Num rat | Text jsnum

definition truthy_num :: "num_field \<Rightarrow> bool" where
  "truthy_num f = (case f of Unset \<Rightarrow> False | Num v \<Rightarrow> v \<noteq> 0 | Text _ \<Rightarrow> True)"

definition field_parseFloat :: "num_field \<Rightarrow> jsnum" where
  "field_parseFloat f = (case f of Unset \<Rightarrow> None | Num v \<Rightarrow> Some v | Text r \<Rightarrow> r)"

text \<open>\<^verbatim>\<open>parseFloat(x) || 0\<close>: \<^verbatim>\<open>NaN\<close> and 0 are both falsy.\<close>

definition parseFloat_or0 :: "num_field \<Rightarrow> rat" where
  "parseFloat_or0 f = (case field_parseFloat f of None \<Rightarrow> 0 | Some v \<Rightarrow> v)"

text \<open>
  The fields of a case draft that the checker and the router read. A text field is \<open>None\<close>
  when it is \<^verbatim>\<open>undefined\<close>. \<^verbatim>\<open>category\<close> and \<^verbatim>\<open>priority\<close> are only compared with string
  literals and looked up in tables of the source's own keys, so a missing value behaves as
  any unlisted string does.
\<close>

record case_data =
  title :: "string option"
  category :: string
  priority :: string
  description :: "string option"
  customerInfo :: "string option"
  dealValue :: num_field
  discountRequested :: num_field
  c_timeframe :: "string option"
  competitorInfo :: "string option"

definition trim :: "string \<Rightarrow> string" where
  "trim s = rev (dropWhile is_space (rev (dropWhile is_space s)))"

text \<open>Truthiness of a text field: defined and not empty.\<close>

definition truthy_text :: "string option \<Rightarrow> bool" where
  "truthy_text f = (case f of None \<Rightarrow> False | Some s \<Rightarrow> s \<noteq> [])"

text \<open>\<^verbatim>\<open>field?.toLowerCase() || ''\<close>.\<close>

definition lower_or_empty :: "string option \<Rightarrow> string" where
  "lower_or_empty f = (case f of None \<Rightarrow> [] | Some s \<Rightarrow> toLowerCase s)"

text \<open>\<^verbatim>\<open>table[key] || dflt\<close> for a table of non-zero numbers.\<close>

definition lookup_or :: "(string \<times> rat) list \<Rightarrow> string \<Rightarrow> rat \<Rightarrow> rat" where
  "lookup_or table k dflt =
     (case map_of table k of None \<Rightarrow> dflt | Some v \<Rightarrow> if v = 0 then dflt else v)"

section \<open>Case Router\<close>

record analysis =
  complexity :: string
  complexityScore :: rat
  riskLevel :: string
  autoApprovable :: bool
  precedentAvailable :: bool

definition checkForPrecedent :: "case_data \<Rightarrow> bool" where
  "checkForPrecedent caseData =
     (category caseData \<in> set [''pricing'', ''dealStructure'', ''competitive''])"

definition categoryComplexity :: "(string \<times> rat) list" where
  "categoryComplexity =
     [(''pricing'', 1), (''dealStructure'', 2), (''technical'', 3), (''legal'', 3),
      (''competitive'', 2), (''pilotProgram'', 2), (''customerSuccess'', 1), (''general'', 1)]"

definition priorityMultiplier :: "(string \<times> rat) list" where
  "priorityMultiplier = [(''low'', 1), (''medium'', 12 / 10), (''high'', 15 / 10), (''critical'', 2)]"

text \<open>
  The complexity score, in the order the source accumulates it. The list of textual
  factors that the source collects alongside is not part of the routing result and is
  left out. (The only multiplier that is not a dyadic fraction is 1.2; the multiplied sum
  is an integer from 1 to 9, and the one product that meets a threshold, \<open>5 * 1.2\<close>, is
  exactly 6 in double arithmetic as well.)
\<close>

definition complexity_score :: "case_data \<Rightarrow> rat" where
  "complexity_score caseData =
     (let dealValue = parseFloat_or0 (dealValue caseData);
          s1 = (if dealValue > 500000 then 3
                else if dealValue > 100000 then 2
                else if dealValue > 25000 then 1 else 0);
          discountPercent = parseFloat_or0 (discountRequested caseData);
          s2 = s1 + (if discountPercent > 30 then 3
                     else if discountPercent > 20 then 2
                     else if discountPercent > 10 then 1 else 0);
          s3 = s2 + lookup_or categoryComplexity (category caseData) 1;
          s4 = s3 * lookup_or priorityMultiplier (priority caseData) 1;
          s5 = s4 + (if truthy_text (competitorInfo caseData)
                        \<and> trim (the (competitorInfo caseData)) \<noteq> [] then 2 else 0);
          s6 = s5 + (if truthy_text (description caseData)
                        \<and> js_includes (toLowerCase (the (description caseData))) ''multi-year''
                     then 1 else 0)
      in s6)"

definition analyzeCaseComplexity :: "case_data \<Rightarrow> analysis" where
  "analyzeCaseComplexity caseData =
     (let complexityScore = complexity_score caseData;
          discountPercent = parseFloat_or0 (discountRequested caseData);
          (complexity, riskLevel) =
             (if complexityScore \<ge> 8 then (''very_complex'', ''high'')
              else if complexityScore \<ge> 5 then (''complex'', ''medium'')
              else if complexityScore \<ge> 3 then (''moderate'', ''medium'')
              else (''simple'', ''low''))
      in \<lparr>complexity = complexity,
          complexityScore = complexityScore,
          riskLevel = riskLevel,
          autoApprovable = (complexityScore \<le> 2 \<and> discountPercent \<le> 10),
          precedentAvailable = checkForPrecedent caseData\<rparr>)"

record approval_level =
  primaryApprover :: string
  secondaryApprover :: "string option"
  level :: nat
  timeline :: string
  requiresFinanceApproval :: bool
  requiresLegalReview :: bool

text \<open>The primary approver with its level and timeline: the first half of the function.\<close>

definition primary_approval :: "case_data \<Rightarrow> analysis \<Rightarrow> string \<times> nat \<times> string" where
  "primary_approval caseData an =
     (let dealValue = parseFloat_or0 (dealValue caseData);
          discountPercent = parseFloat_or0 (discountRequested caseData);
          approvalReq = (if discountPercent > 0 \<and> dealValue > 0
                         then Some (getApprovalRequirement discountPercent dealValue)
                         else None);
          discountAppr = (case approvalReq of None \<Rightarrow> None | Some r \<Rightarrow> discountApproval r)
      in if autoApprovable an then (''Auto-approved'', 1, ''Immediate'')
         else (case discountAppr of
            Some da \<Rightarrow>
              (approver da,
               (if js_includes (approver da) ''VP'' \<and> js_includes (approver da) ''Finance'' then 5
                else if js_includes (approver da) ''VP'' then 4
                else if js_includes (approver da) ''Director'' then 3
                else 2),
               timeframe da)
          | None \<Rightarrow>
              (if category caseData = ''technical'' then
                 (if dealValue > 250000 then (''VP Engineering'', 4, ''72 hours'')
                  else (''Engineering Manager'', 3, ''48 hours''))
               else if category caseData = ''legal'' then
                 (''Legal + Sales Director'', 4, ''1 week'')
               else if category caseData = ''competitive'' then
                 (if priority caseData = ''critical'' then (''VP Sales'', 4, ''4 hours'')
                  else if discountPercent > 20 then (''Regional Director'', 3, ''48 hours'')
                  else (''Sales Manager'', 2, ''24 hours''))
               else if category caseData = ''customerSuccess'' then
                 (''CS Director'', 3, ''48 hours'')
               else
                 (if dealValue > 500000 then (''VP Sales'', 4, ''72 hours'')
                  else if dealValue > 100000 then (''Regional Director'', 3, ''48 hours'')
                  else (''Sales Manager'', 2, ''24 hours'')))))"

definition determineApprovalLevel :: "case_data \<Rightarrow> analysis \<Rightarrow> approval_level" where
  "determineApprovalLevel caseData an =
     (let dealValue = parseFloat_or0 (dealValue caseData);
          (primary, lvl, tl) = primary_approval caseData an;
          secondary =
            (if riskLevel an = ''high'' \<or> lvl \<ge> 4 then
               (if category caseData = ''legal'' then Some ''General Counsel''
                else if dealValue > 500000 then Some ''CEO''
                else if js_includes primary ''Finance'' then Some ''CFO''
                else None)
             else None)
      in \<lparr>primaryApprover = primary,
          secondaryApprover = secondary,
          level = lvl,
          timeline = tl,
          requiresFinanceApproval = (js_includes primary ''Finance'' \<or> dealValue > 500000),
          requiresLegalReview = (category caseData = ''legal'' \<or> riskLevel an = ''high'')\<rparr>)"

record team =
  primary :: string
  secondary :: string
  escalation :: string

definition teams :: "(string \<times> team) list" where
  "teams =
     [(''pricing'', \<lparr>primary = ''Sales Manager'', secondary = ''Regional Director'',
                     escalation = ''VP Sales + Finance''\<rparr>),
      (''technical'', \<lparr>primary = ''Solutions Engineer'', secondary = ''Engineering Manager'',
                       escalation = ''VP Engineering''\<rparr>),
      (''legal'', \<lparr>primary = ''Legal Team'', secondary = ''Legal + Sales Director'',
                   escalation = ''General Counsel''\<rparr>),
      (''competitive'', \<lparr>primary = ''Sales Manager'', secondary = ''Regional Director'',
                         escalation = ''VP Sales''\<rparr>),
      (''customerSuccess'', \<lparr>primary = ''Customer Success Manager'', secondary = ''CS Director'',
                             escalation = ''VP Customer Success''\<rparr>)]"

definition categoryTeamMap :: "(string \<times> string) list" where
  "categoryTeamMap =
     [(''pricing'', ''pricing''), (''dealStructure'', ''pricing''), (''technical'', ''technical''),
      (''legal'', ''legal''), (''competitive'', ''competitive''), (''pilotProgram'', ''pricing''),
      (''customerSuccess'', ''customerSuccess''), (''general'', ''pricing'')]"

record team_assignment =
  primaryTeam :: string
  supportingTeams :: "string list"
  escalationTeam :: string

text \<open>\<^verbatim>\<open>[...new Set(xs)]\<close>: the first occurrence of each element is kept.\<close>

fun dedupe :: "string list \<Rightarrow> string list" where
  "dedupe [] = []"
| "dedupe (x # xs) = x # filter (\<lambda>y. y \<noteq> x) (dedupe xs)"

definition pricing_team :: team where
  "pricing_team = \<lparr>primary = ''Sales Manager'', secondary = ''Regional Director'',
                    escalation = ''VP Sales + Finance''\<rparr>"

definition assignTeam :: "case_data \<Rightarrow> analysis \<Rightarrow> team_assignment" where
  "assignTeam caseData an =
     (let primaryTeamType =
            (case map_of categoryTeamMap (category caseData) of
               None \<Rightarrow> ''pricing'' | Some t \<Rightarrow> t);
          tm = (case map_of teams primaryTeamType of None \<Rightarrow> pricing_team | Some t \<Rightarrow> t);
          supporting =
            (if riskLevel an = ''high'' then [''Legal Team''] else []) @
            (if (case field_parseFloat (dealValue caseData) of None \<Rightarrow> False | Some v \<Rightarrow> v > 250000)
             then [''Finance Team''] else []) @
            (if truthy_text (competitorInfo caseData) then [''Product Marketing''] else []) @
            (if category caseData = ''technical'' then [''Solutions Engineering''] else [])
      in \<lparr>primaryTeam = primary tm,
          supportingTeams = dedupe supporting,
          escalationTeam = escalation tm\<rparr>)"

definition priorityScore :: "(string \<times> rat) list" where
  "priorityScore = [(''low'', 1), (''medium'', 2), (''high'', 3), (''critical'', 4)]"

definition urgency_score :: "case_data \<Rightarrow> rat" where
  "urgency_score caseData =
     (let dealValue = parseFloat_or0 (dealValue caseData);
          tf = lower_or_empty (c_timeframe caseData);
          desc = lower_or_empty (description caseData)
      in lookup_or priorityScore (priority caseData) 2
         + (if dealValue > 500000 then 2 else if dealValue > 100000 then 1 else 0)
         + (if truthy_text (competitorInfo caseData) then 2 else 0)
         + (if truthy_text (c_timeframe caseData) then
              (if js_includes tf ''urgent'' \<or> js_includes tf ''asap'' \<or> js_includes tf ''immediate''
               then 2
               else if js_includes tf ''week'' \<or> js_includes tf ''soon'' then 1 else 0)
            else 0)
         + (if truthy_text (description caseData) \<and> js_includes desc ''renewal''
               \<and> js_includes desc ''risk'' then 2 else 0))"

text \<open>\<^verbatim>\<open>assessUrgency(...).level\<close>.\<close>

definition assessUrgency :: "case_data \<Rightarrow> string" where
  "assessUrgency caseData =
     (let urgencyScore = urgency_score caseData
      in if urgencyScore \<ge> 7 then ''critical''
         else if urgencyScore \<ge> 5 then ''high''
         else if urgencyScore \<ge> 3 then ''medium''
         else ''low'')"

definition buildEscalationPath :: "case_data \<Rightarrow> analysis \<Rightarrow> string list" where
  "buildEscalationPath caseData an =
     (let dealValue = parseFloat_or0 (dealValue caseData)
      in if complexity an = ''simple'' then
           [''Sales Manager''] @ (if dealValue > 100000 then [''Regional Director''] else [])
         else
           [''Sales Manager'', ''Regional Director'']
           @ (if dealValue > 250000 \<or> riskLevel an = ''high'' then [''VP Sales''] else [])
           @ (if dealValue > 500000 \<or> category caseData = ''legal''
              then [''VP Sales + CEO''] else []))"

text \<open>
  The routing decision. On a case draft of the type above no step of \<^verbatim>\<open>routeCase\<close> raises,
  so the result is the \<^verbatim>\<open>success: true\<close> object; its \<^verbatim>\<open>recommendations\<close> and
  \<^verbatim>\<open>routing_rationale\<close> texts are left out.
\<close>

record routing_decision =
  r_primaryApprover :: string
  r_secondaryApprover :: "string option"
  r_team :: string
  r_supportingTeams :: "string list"
  r_approvalLevel :: nat
  r_expectedTimeline :: string
  r_urgency :: string
  r_escalationPath :: "string list"
  r_complexity :: string
  r_riskLevel :: string
  r_precedentAvailable :: bool
  r_autoApprovable :: bool

definition routeCase :: "case_data \<Rightarrow> routing_decision" where
  "routeCase caseData =
     (let an = analyzeCaseComplexity caseData;
          approvalRequirement = determineApprovalLevel caseData an;
          teamAssignment = assignTeam caseData an
      in \<lparr>r_primaryApprover = primaryApprover approvalRequirement,
          r_secondaryApprover = secondaryApprover approvalRequirement,
          r_team = primaryTeam teamAssignment,
          r_supportingTeams = supportingTeams teamAssignment,
          r_approvalLevel = level approvalRequirement,
          r_expectedTimeline = timeline approvalRequirement,
          r_urgency = assessUrgency caseData,
          r_escalationPath = buildEscalationPath caseData an,
          r_complexity = complexity an,
          r_riskLevel = riskLevel an,
          r_precedentAvailable = precedentAvailable an,
          r_autoApprovable = autoApprovable an\<rparr>)"

section \<open>Compliance Checker (PolicyChecker)\<close>

text \<open>
  A violation or warning carries its type, its severity and its message; a recommendation
  its type, its priority and its message. A message built by a template literal is the
  list of its pieces, so that no number has to be printed. The remaining descriptive
  fields (\<^verbatim>\<open>impact\<close>, \<^verbatim>\<open>benefit\<close> and the like) play no part in the aggregation and are
  left out.
\<close>

datatype msg_part = Lit string | Val rat

record issue =
  i_type :: string
  severity :: string
  message :: "msg_part list"

record recommendation =
  rec_type :: string
  rec_priority :: string
  rec_message :: "msg_part list"

record check_result =
  ck_type :: string
  ck_compliant :: bool
  ck_score :: rat
  ck_violations :: "issue list"
  ck_warnings :: "issue list"
  ck_recommendations :: "recommendation list"

text \<open>The result object every check starts from.\<close>

definition neutral_result :: "string \<Rightarrow> check_result" where
  "neutral_result t =
     \<lparr>ck_type = t, ck_compliant = True, ck_score = 100,
      ck_violations = [], ck_warnings = [], ck_recommendations = []\<rparr>"

definition minimum_seats :: "(string \<times> rat) list" where
  "minimum_seats =
     [(''smb'', 5), (''midmarket'', 25), (''enterprise'', 100),
      (''largeEnterprise'', 500), (''globalAccounts'', 1000)]"

definition minimum_value :: "(string \<times> rat) list" where
  "minimum_value =
     [(''smb'', 5000), (''midmarket'', 15000), (''enterprise'', 50000),
      (''largeEnterprise'', 250000), (''globalAccounts'', 500000)]"

definition inferSegment :: "case_data \<Rightarrow> string" where
  "inferSegment caseData =
     (let dealValue = parseFloat_or0 (dealValue caseData);
          desc = lower_or_empty (description caseData);
          cust = lower_or_empty (customerInfo caseData)
      in if js_includes desc ''smb'' \<or> js_includes cust ''smb'' then ''smb''
         else if js_includes desc ''midmarket'' \<or> js_includes cust ''midmarket'' then ''midmarket''
         else if js_includes desc ''enterprise'' \<or> js_includes cust ''enterprise'' then ''enterprise''
         else if js_includes desc ''global'' \<or> js_includes cust ''global'' then ''globalAccounts''
         else if dealValue \<ge> 500000 then ''globalAccounts''
         else if dealValue \<ge> 250000 then ''largeEnterprise''
         else if dealValue \<ge> 50000 then ''enterprise''
         else if dealValue \<ge> 15000 then ''midmarket''
         else ''smb'')"

definition inferDealType :: "case_data \<Rightarrow> string" where
  "inferDealType caseData =
     (let desc = lower_or_empty (description caseData);
          ttl = lower_or_empty (title caseData)
      in if js_includes desc ''renewal'' \<or> js_includes ttl ''renewal'' then ''renewal''
         else if js_includes desc ''add-on'' \<or> js_includes desc ''addon''
                 \<or> js_includes ttl ''add-on'' then ''addon''
         else if js_includes desc ''upsell'' \<or> js_includes ttl ''upsell'' then ''upsell''
         else ''newBusiness'')"

subsection \<open>The nine checks\<close>

definition discountCompliance :: "case_data \<Rightarrow> check_result" where
  "discountCompliance caseData =
     (let result = neutral_result ''discount_compliance''
      in if \<not> truthy_num (discountRequested caseData) \<or> category caseData \<noteq> ''pricing''
         then result
         else
           (let discountPercent = field_parseFloat (discountRequested caseData);
                segment = inferSegment caseData;
                dealType = inferDealType caseData
            in case getDiscountPolicy dealType segment None of
                 None \<Rightarrow>
                   result\<lparr>ck_warnings :=
                     [\<lparr>i_type = ''policy_lookup'', severity = ''medium'',
                       message = [Lit ''Unable to determine discount policy for this segment/deal type'']\<rparr>]\<rparr>
               | Some policy \<Rightarrow>
                   (let r1 =
                      (case discountPercent of
                         None \<Rightarrow> result
                       | Some d \<Rightarrow>
                           if d > p_max policy then
                             result\<lparr>ck_compliant := False, ck_score := 20,
                               ck_violations :=
                                 [\<lparr>i_type = ''discount_limit_exceeded'', severity = ''high'',
                                   message = [Lit ''Requested '', Val d, Lit ''% exceeds policy limit of '',
                                              Val (p_max policy), Lit ''% for '', Lit segment, Lit '' '',
                                              Lit dealType]\<rparr>]\<rparr>
                           else if d > p_autoApproved policy then
                             result\<lparr>ck_score := 70,
                               ck_warnings :=
                                 [\<lparr>i_type = ''approval_required'', severity = ''medium'',
                                   message = [Val d, Lit ''% discount requires manager approval (auto-approved up to '',
                                              Val (p_autoApproved policy), Lit ''%)'']\<rparr>]\<rparr>
                           else result)
                    in if regionalAdjustment policy > 0 then
                         r1\<lparr>ck_recommendations :=
                           [\<lparr>rec_type = ''regional_adjustment'', rec_priority = ''info'',
                             rec_message = [Lit ''Regional adjustment of +'', Val (regionalAdjustment policy),
                                            Lit ''% available (effective limit: '',
                                            Val (effectiveMax policy), Lit ''%)'']\<rparr>]\<rparr>
                       else r1)))"

text \<open>
  The first match of \<^verbatim>\<open>/(\d+)\s*seats?/\<close>: the captured digit run. A match can only
  start at a digit and must take the whole run that starts there, since the run has to be
  followed by white space or by \<^verbatim>\<open>seat\<close>.
\<close>

fun seatMatch :: "string \<Rightarrow> string option" where
  "seatMatch [] = None"
| "seatMatch (c # cs) =
     (if is_digit c \<and>
         starts_with (dropWhile is_space (dropWhile is_digit (c # cs))) ''seat''
      then Some (takeWhile is_digit (c # cs))
      else seatMatch cs)"

definition minimumRequirements :: "case_data \<Rightarrow> check_result" where
  "minimumRequirements caseData =
     (let result = neutral_result ''minimum_requirements'';
          segment = inferSegment caseData;
          dealValue = parseFloat_or0 (dealValue caseData);
          dealType = inferDealType caseData
      in if dealType = ''addon'' then
           result\<lparr>ck_recommendations :=
             [\<lparr>rec_type = ''addon_exemption'', rec_priority = ''info'',
               rec_message = [Lit ''Add-on deals are exempt from minimum requirements'']\<rparr>]\<rparr>
         else
           (let r1 =
              (case map_of minimum_value segment of
                 Some minValue \<Rightarrow>
                   if minValue \<noteq> 0 \<and> dealValue > 0 \<and> dealValue < minValue then
                     result\<lparr>ck_compliant := False, ck_score := 30,
                       ck_violations :=
                         [\<lparr>i_type = ''minimum_value'', severity = ''high'',
                           message = [Lit ''Deal value $'', Val dealValue, Lit '' below '', Lit segment,
                                      Lit '' minimum of $'', Val minValue]\<rparr>]\<rparr>
                   else result
               | None \<Rightarrow> result)
            in case seatMatch (lower_or_empty (description caseData)) of
                 None \<Rightarrow> r1
               | Some ds \<Rightarrow>
                   (case (parseInt ds, map_of minimum_seats segment) of
                      (Some requestedSeats, Some minSeats) \<Rightarrow>
                        if minSeats \<noteq> 0 \<and> requestedSeats < minSeats then
                          r1\<lparr>ck_compliant := False,
                             ck_score := min (ck_score r1) 30,
                             ck_violations := ck_violations r1 @
                               [\<lparr>i_type = ''minimum_seats'', severity = ''high'',
                                 message = [Lit ''Requested '', Val requestedSeats, Lit '' seats below '',
                                            Lit segment, Lit '' minimum of '', Val minSeats]\<rparr>]\<rparr>
                        else r1
                    | _ \<Rightarrow> r1)))"

definition approvalWorkflow :: "case_data \<Rightarrow> check_result" where
  "approvalWorkflow caseData =
     (let result = neutral_result ''approval_workflow'';
          discountPercent = parseFloat_or0 (discountRequested caseData);
          dealValue = parseFloat_or0 (dealValue caseData);
          recs =
            (if discountPercent > 0 \<and> dealValue > 0 then
               (let approvalReq = getApprovalRequirement discountPercent dealValue
                in (case discountApproval approvalReq of
                      Some da \<Rightarrow>
                        [\<lparr>rec_type = ''approval_path'', rec_priority = ''high'',
                          rec_message = [Lit ''Requires '', Lit (approver da), Lit '' approval ('',
                                         Lit (timeframe da), Lit '')'']\<rparr>]
                    | None \<Rightarrow> [])
                   @
                   (case sizeApproval approvalReq of
                      Some sa \<Rightarrow>
                        if Some (approver sa) \<noteq> map_option approver (discountApproval approvalReq)
                        then [\<lparr>rec_type = ''dual_approval'', rec_priority = ''high'',
                               rec_message = [Lit ''Deal size also requires '', Lit (approver sa),
                                              Lit '' approval'']\<rparr>]
                        else []
                    | None \<Rightarrow> []))
             else [])
      in result\<lparr>ck_recommendations := recs,
                ck_warnings :=
                  (if dealValue > 500000 then
                     [\<lparr>i_type = ''high_value_deal'', severity = ''medium'',
                       message = [Lit ''Large deals may require executive and finance approval'']\<rparr>]
                   else [])\<rparr>)"

definition dealStructure :: "case_data \<Rightarrow> check_result" where
  "dealStructure caseData =
     (let result = neutral_result ''deal_structure'';
          desc = lower_or_empty (description caseData);
          r1 = (if js_includes desc ''payment terms'' \<or> js_includes desc ''net 60''
                   \<or> js_includes desc ''net 90'' then
                  result\<lparr>ck_score := 80,
                    ck_warnings :=
                      [\<lparr>i_type = ''payment_terms'', severity = ''medium'',
                        message = [Lit ''Non-standard payment terms detected'']\<rparr>]\<rparr>
                else result);
          r2 = (if js_includes desc ''multi-year'' \<or> js_includes desc ''3 year''
                   \<or> js_includes desc ''multiple years'' then
                  r1\<lparr>ck_recommendations :=
                     [\<lparr>rec_type = ''multi_year_terms'', rec_priority = ''medium'',
                       rec_message = [Lit ''Multi-year deals may qualify for additional discounts'']\<rparr>]\<rparr>
                else r1)
      in if js_includes desc ''equity'' \<or> js_includes desc ''stock'' \<or> js_includes desc ''barter''
         then r2\<lparr>ck_compliant := False, ck_score := 10,
                ck_violations :=
                  [\<lparr>i_type = ''non_cash_payment'', severity = ''high'',
                    message = [Lit ''Non-cash payment structures require special approval'']\<rparr>]\<rparr>
         else r2)"

definition competitivePolicy :: "case_data \<Rightarrow> check_result" where
  "competitivePolicy caseData =
     (let result = neutral_result ''competitive_policy'';
          hasCompetitor = (truthy_text (competitorInfo caseData)
                           \<and> length (trim (the (competitorInfo caseData))) > 0);
          desc = lower_or_empty (description caseData);
          isCompetitive = (hasCompetitor \<or> js_includes desc ''competitive''
                           \<or> js_includes desc ''competitor'')
      in if isCompetitive then
           result\<lparr>ck_recommendations :=
             [\<lparr>rec_type = ''competitive_discount'', rec_priority = ''high'',
               rec_message = [Lit ''Competitive situations may qualify for additional 5% discount'']\<rparr>,
              \<lparr>rec_type = ''competitive_documentation'', rec_priority = ''medium'',
               rec_message = [Lit ''Document competitive intelligence and win/loss factors'']\<rparr>]
             @ (if priority caseData = ''critical'' then
                  [\<lparr>rec_type = ''expedited_approval'', rec_priority = ''high'',
                    rec_message = [Lit ''Critical competitive situations qualify for expedited approval'']\<rparr>]
                else [])\<rparr>
         else result)"

definition standardDurations :: "(string \<times> rat) list" where
  "standardDurations =
     [(''smb'', 30), (''midmarket'', 30), (''enterprise'', 60),
      (''largeEnterprise'', 90), (''globalAccounts'', 90)]"

definition pilotProgramRules :: "case_data \<Rightarrow> check_result" where
  "pilotProgramRules caseData =
     (let result = neutral_result ''pilot_program'';
          desc = lower_or_empty (description caseData);
          isPilot = (js_includes desc ''pilot'' \<or> js_includes desc ''trial'' \<or> js_includes desc ''poc'')
      in if isPilot then
           (let segment = inferSegment caseData;
                standardDuration = lookup_or standardDurations segment 30;
                r1 = result\<lparr>ck_recommendations :=
                       [\<lparr>rec_type = ''pilot_duration'', rec_priority = ''medium'',
                         rec_message = [Lit ''Standard pilot duration for '', Lit segment, Lit '': '',
                                        Val standardDuration, Lit '' days'']\<rparr>]\<rparr>
            in if js_includes desc ''6 month'' \<or> js_includes desc ''extended''
                  \<or> js_includes desc ''long'' then
                 r1\<lparr>ck_score := 70,
                    ck_warnings :=
                      [\<lparr>i_type = ''extended_pilot'', severity = ''medium'',
                        message = [Lit ''Extended pilots (6+ months) require VP approval'']\<rparr>]\<rparr>
               else r1)
         else result)"

definition paymentTerms :: "case_data \<Rightarrow> check_result" where
  "paymentTerms caseData =
     (let result = neutral_result ''payment_terms'';
          desc = lower_or_empty (description caseData);
          r1 = (if js_includes desc ''net 60'' then
                  result\<lparr>ck_score := 80,
                    ck_warnings :=
                      [\<lparr>i_type = ''extended_terms'', severity = ''medium'',
                        message = [Lit ''Net 60 terms require finance approval'']\<rparr>]\<rparr>
                else result)
      in if js_includes desc ''net 90'' \<or> js_includes desc ''net 120'' then
           r1\<lparr>ck_compliant := False, ck_score := 40,
              ck_violations :=
                [\<lparr>i_type = ''excessive_terms'', severity = ''high'',
                  message = [Lit ''Payment terms beyond Net 60 require executive approval'']\<rparr>]\<rparr>
         else r1)"

definition technicalCompliance :: "case_data \<Rightarrow> check_result" where
  "technicalCompliance caseData =
     (let result = neutral_result ''technical_compliance''
      in if category caseData \<noteq> ''technical'' then result
         else
           (let desc = lower_or_empty (description caseData);
                r1 = (if js_includes desc ''custom'' \<or> js_includes desc ''integration''
                         \<or> js_includes desc ''api'' then
                        result\<lparr>ck_warnings :=
                            [\<lparr>i_type = ''custom_development'', severity = ''medium'',
                              message = [Lit ''Custom development requests require engineering review'']\<rparr>],
                          ck_recommendations :=
                            [\<lparr>rec_type = ''development_premium'', rec_priority = ''medium'',
                              rec_message = [Lit ''Custom development typically includes 15-25% premium'']\<rparr>]\<rparr>
                      else result)
            in if js_includes desc ''security'' \<or> js_includes desc ''compliance''
                  \<or> js_includes desc ''soc'' \<or> js_includes desc ''gdpr'' then
                 r1\<lparr>ck_recommendations := ck_recommendations r1 @
                      [\<lparr>rec_type = ''security_review'', rec_priority = ''high'',
                        rec_message = [Lit ''Security requirements may need certification team review'']\<rparr>]\<rparr>
               else r1))"

definition legalCompliance :: "case_data \<Rightarrow> check_result" where
  "legalCompliance caseData =
     (let result = neutral_result ''legal_compliance''
      in if category caseData \<noteq> ''legal'' then result
         else
           (let desc = lower_or_empty (description caseData);
                r1 = (if js_includes desc ''contract'' \<or> js_includes desc ''terms''
                         \<or> js_includes desc ''msa'' then
                        result\<lparr>ck_score := 60,
                          ck_warnings :=
                            [\<lparr>i_type = ''contract_review'', severity = ''high'',
                              message = [Lit ''Contract modifications require legal team review'']\<rparr>]\<rparr>
                      else result)
            in if js_includes desc ''gdpr'' \<or> js_includes desc ''privacy''
                  \<or> js_includes desc ''data residency'' then
                 r1\<lparr>ck_recommendations :=
                      [\<lparr>rec_type = ''privacy_compliance'', rec_priority = ''high'',
                        rec_message = [Lit ''Data privacy requirements need compliance team input'']\<rparr>]\<rparr>
               else r1))"

subsection \<open>Aggregation\<close>

record approval_requirements =
  ar_level :: string
  approvers :: "string list"
  ar_timeline :: string
  conditions :: "string list"

record risk_assessment =
  risk_level :: string
  risk_score :: rat
  risk_factors :: "string list"
  mitigation :: "string list"

text \<open>
  The \<^verbatim>\<open>results\<close> object. Its \<^verbatim>\<open>precedentAnalysis\<close> (a search of the historical cases that
  handles its own errors) is left out.
\<close>

record results =
  overallCompliance :: string
  score :: rat
  violations :: "issue list"
  warnings :: "issue list"
  recommendations :: "recommendation list"
  approvalRequirements :: "approval_requirements option"
  riskAssessment :: "risk_assessment option"
  complianceChecks :: "string \<rightharpoonup> check_result"

definition initial_results :: results where
  "initial_results =
     \<lparr>overallCompliance = ''compliant'', score = 100, violations = [], warnings = [],
      recommendations = [], approvalRequirements = None, riskAssessment = None,
      complianceChecks = Map.empty\<rparr>"

text \<open>
  A check applied to an argument either returns its result or raises. The loop is written
  over any type of argument and any battery of checks: the nine checks above never raise on
  a case draft whose text fields are strings or undefined, and the checks on an arbitrary
  argument, which do raise, follow below.
\<close>

datatype js_error = TypeError | JsError string

type_synonym 'd check = "'d \<Rightarrow> js_error + check_result"

definition system_warning :: "string \<Rightarrow> issue" where
  "system_warning checkType =
     \<lparr>i_type = ''system'', severity = ''medium'',
      message = [Lit ''Unable to complete '', Lit checkType, Lit '' check'']\<rparr>"

text \<open>One iteration of the loop over \<^verbatim>\<open>this.complianceChecks\<close>: the body of the inner \<^verbatim>\<open>try\<close>.\<close>

definition run_check :: "'d \<Rightarrow> results \<Rightarrow> string \<times> 'd check \<Rightarrow> results" where
  "run_check caseData res nc =
     (case (snd nc) caseData of
        Inr checkResult \<Rightarrow>
          res\<lparr>complianceChecks := (complianceChecks res)(fst nc \<mapsto> checkResult),
              violations := violations res @ ck_violations checkResult,
              warnings := warnings res @ ck_warnings checkResult,
              recommendations := recommendations res @ ck_recommendations checkResult,
              score := min (score res) (ck_score checkResult)\<rparr>
      | Inl err \<Rightarrow>
          res\<lparr>warnings := warnings res @ [system_warning (fst nc)]\<rparr>)"

definition run_checks :: "(string \<times> 'd check) list \<Rightarrow> 'd \<Rightarrow> results" where
  "run_checks checks caseData = foldl (run_check caseData) initial_results checks"

text \<open>The results of the checks of a battery that returned, in the order of the battery.\<close>

definition returned :: "(string \<times> 'd check) list \<Rightarrow> 'd \<Rightarrow> check_result list" where
  "returned checks caseData =
     concat (map (\<lambda>nc. case (snd nc) caseData of Inr r \<Rightarrow> [r] | Inl _ \<Rightarrow> []) checks)"

text \<open>What one check adds to the warnings: its own, or the system warning when it raised.\<close>

definition warnings_of :: "'d \<Rightarrow> string \<times> 'd check \<Rightarrow> issue list" where
  "warnings_of caseData nc =
     (case (snd nc) caseData of Inr r \<Rightarrow> ck_warnings r | Inl _ \<Rightarrow> [system_warning (fst nc)])"

definition determineOverallCompliance :: "results \<Rightarrow> string" where
  "determineOverallCompliance res =
     (if length (violations res) > 0 then
        (if length (filter (\<lambda>v. severity v = ''high'') (violations res)) > 0
         then ''non_compliant'' else ''conditional'')
      else if length (warnings res) > 0 then ''conditional''
      else ''compliant'')"

definition getApprovalRequirements :: "case_data \<Rightarrow> results \<Rightarrow> approval_requirements" where
  "getApprovalRequirements caseData complianceResults =
     (let dealValue = parseFloat_or0 (dealValue caseData);
          r1 = (if dealValue > 500000 then
                  \<lparr>ar_level = ''executive'', approvers = [''Sales Manager'', ''VP Sales'', ''Finance''],
                   ar_timeline = ''3-5 days'', conditions = []\<rparr>
                else if dealValue > 100000 then
                  \<lparr>ar_level = ''director'', approvers = [''Sales Manager'', ''Regional Director''],
                   ar_timeline = ''48-72 hours'', conditions = []\<rparr>
                else
                  \<lparr>ar_level = ''manager'', approvers = [''Sales Manager''],
                   ar_timeline = ''24-48 hours'', conditions = []\<rparr>);
          r2 = (if length (violations complianceResults) > 0 then
                  r1\<lparr>ar_level := ''executive'',
                     approvers := (if ''VP Sales'' \<in> set (approvers r1) then approvers r1
                                   else approvers r1 @ [''VP Sales'']),
                     conditions := conditions r1 @
                       [''Exception approval required for policy violations'']\<rparr>
                else r1);
          r3 = (if category caseData = ''legal'' then
                  r2\<lparr>approvers := approvers r2 @ [''Legal Team''], ar_timeline := ''5-7 days''\<rparr>
                else r2)
      in if category caseData = ''technical'' then
           r3\<lparr>approvers := approvers r3 @ [''Engineering Manager'']\<rparr>
         else r3)"

definition generateRiskMitigation :: "string \<Rightarrow> string list \<Rightarrow> string list" where
  "generateRiskMitigation rl rf =
     (if rl = ''high'' then
        [''Require executive approval'', ''Include legal and finance review'',
         ''Document all risk factors and mitigation strategies'']
      else if rl = ''medium'' then
        [''Require director-level approval'', ''Document business justification thoroughly'']
      else [])
     @ (if ''Policy violations present'' \<in> set rf
        then [''Provide strong exception justification''] else [])
     @ (if ''Competitive situation'' \<in> set rf
        then [''Include competitive intelligence and win/loss analysis''] else [])"

text \<open>
  \<^verbatim>\<open>assessRisk\<close>, from the point where the competitive situation has been decided; the
  decision is the only place where the function reads a text field.
\<close>

definition risk_from :: "bool \<Rightarrow> case_data \<Rightarrow> results \<Rightarrow> risk_assessment" where
  "risk_from competitive caseData complianceResults =
     (let nv = length (violations complianceResults);
          discountPercent = parseFloat_or0 (discountRequested caseData);
          dealValue = parseFloat_or0 (dealValue caseData);
          nonStandard = (category caseData = ''legal'' \<or> category caseData = ''technical'');
          riskScore = (if nv > 0 then of_nat nv * 20 else 0)
                      + (if discountPercent > 25 then 15 else 0)
                      + (if dealValue > 500000 then 10 else 0)
                      + (if competitive then 5 else 0)
                      + (if nonStandard then 10 else 0);
          riskFactors = (if nv > 0 then [''Policy violations present''] else [])
                      @ (if discountPercent > 25 then [''High discount percentage''] else [])
                      @ (if dealValue > 500000 then [''Large deal size''] else [])
                      @ (if competitive then [''Competitive situation''] else [])
                      @ (if nonStandard then [''Non-standard terms requested''] else []);
          riskLevel = (if riskScore \<ge> 40 then ''high''
                       else if riskScore \<ge> 20 then ''medium'' else ''low'')
      in \<lparr>risk_level = riskLevel, risk_score = riskScore, risk_factors = riskFactors,
          mitigation = generateRiskMitigation riskLevel riskFactors\<rparr>)"

definition assessRisk :: "case_data \<Rightarrow> results \<Rightarrow> risk_assessment" where
  "assessRisk caseData complianceResults =
     risk_from (truthy_text (competitorInfo caseData) \<or>
                (case description caseData of
                   None \<Rightarrow> False
                 | Some d \<Rightarrow> js_includes (toLowerCase d) ''competitive''))
               caseData complianceResults"

text \<open>
  \<^verbatim>\<open>checkCompliance\<close> on a case draft whose text fields are strings or undefined. There
  neither the nine checks nor the steps after the loop raise, so the outer handler is not
  entered and the response is the \<^verbatim>\<open>success: true\<close> object (its time stamp is left out).
  The function on an arbitrary argument, with its outer handler, is \<open>checkCompliance_js\<close>
  below.
\<close>

record compliance_response =
  success :: bool
  compliance :: results

definition checkCompliance_with ::
  "(string \<times> case_data check) list \<Rightarrow> case_data \<Rightarrow> compliance_response" where
  "checkCompliance_with checks caseData =
     (let r0 = run_checks checks caseData;
          r1 = r0\<lparr>overallCompliance := determineOverallCompliance r0\<rparr>;
          r2 = r1\<lparr>approvalRequirements := Some (getApprovalRequirements caseData r1)\<rparr>;
          r3 = r2\<lparr>riskAssessment := Some (assessRisk caseData r2)\<rparr>
      in \<lparr>success = True, compliance = r3\<rparr>)"

text \<open>\<^verbatim>\<open>this.complianceChecks\<close>, each name bound to its method.\<close>

definition policy_checks :: "(string \<times> case_data check) list" where
  "policy_checks =
     [(''discountCompliance'', \<lambda>c. Inr (discountCompliance c)),
      (''minimumRequirements'', \<lambda>c. Inr (minimumRequirements c)),
      (''approvalWorkflow'', \<lambda>c. Inr (approvalWorkflow c)),
      (''dealStructure'', \<lambda>c. Inr (dealStructure c)),
      (''competitivePolicy'', \<lambda>c. Inr (competitivePolicy c)),
      (''pilotProgramRules'', \<lambda>c. Inr (pilotProgramRules c)),
      (''paymentTerms'', \<lambda>c. Inr (paymentTerms c)),
      (''technicalCompliance'', \<lambda>c. Inr (technicalCompliance c)),
      (''legalCompliance'', \<lambda>c. Inr (legalCompliance c))]"

definition checkCompliance :: "case_data \<Rightarrow> compliance_response" where
  "checkCompliance caseData = checkCompliance_with policy_checks caseData"

subsection \<open>checkCompliance on an arbitrary argument\<close>

text \<open>
  The value of a text field of the argument: \<^verbatim>\<open>undefined\<close> (or \<^verbatim>\<open>null\<close>), a string, or any
  other value, of which only the truthiness matters: it has no string methods, so
  \<^verbatim>\<open>x?.toLowerCase()\<close> and \<^verbatim>\<open>x.trim()\<close> raise a \<^verbatim>\<open>TypeError\<close> on it.
\<close>

datatype js_text = Undefined | Str string | Other bool

definition is_other :: "js_text \<Rightarrow> bool" where
  "is_other x = (case x of Other _ \<Rightarrow> True | _ \<Rightarrow> False)"

definition truthy_js :: "js_text \<Rightarrow> bool" where
  "truthy_js x = (case x of Undefined \<Rightarrow> False | Str s \<Rightarrow> s \<noteq> [] | Other b \<Rightarrow> b)"

definition text_of :: "js_text \<Rightarrow> string option" where
  "text_of x = (case x of Str s \<Rightarrow> Some s | _ \<Rightarrow> None)"

text \<open>The fields that the checker reads, the text fields holding any value.\<close>

record raw_case =
  raw_title :: js_text
  raw_category :: string
  raw_priority :: string
  raw_description :: js_text
  raw_customerInfo :: js_text
  raw_dealValue :: num_field
  raw_discountRequested :: num_field
  raw_competitorInfo :: js_text

text \<open>
  The case draft that a check sees once it has read its text fields without raising. A
  field that is not a string is one the check did not dereference, or read for its
  truthiness only and found falsy, as an undefined field.
\<close>

definition to_typed :: "raw_case \<Rightarrow> case_data" where
  "to_typed rc =
     \<lparr>title = text_of (raw_title rc), category = raw_category rc, priority = raw_priority rc,
      description = text_of (raw_description rc), customerInfo = text_of (raw_customerInfo rc),
      dealValue = raw_dealValue rc, discountRequested = raw_discountRequested rc,
      c_timeframe = None, competitorInfo = text_of (raw_competitorInfo rc)\<rparr>"

text \<open>
  \<^verbatim>\<open>inferSegment\<close> lower-cases the description and the customer information before anything
  else, \<^verbatim>\<open>inferDealType\<close> the description and the title.
\<close>

definition inferSegment_raises :: "raw_case \<Rightarrow> bool" where
  "inferSegment_raises rc = (is_other (raw_description rc) \<or> is_other (raw_customerInfo rc))"

definition inferDealType_raises :: "raw_case \<Rightarrow> bool" where
  "inferDealType_raises rc = (is_other (raw_description rc) \<or> is_other (raw_title rc))"

text \<open>
  The nine checks on an arbitrary argument (\<open>None\<close> is \<^verbatim>\<open>null\<close> or \<^verbatim>\<open>undefined\<close>, on which the
  first property access raises). Each follows its method up to the last place where a text
  field is dereferenced, and from there is the check defined above.
\<close>

definition discountCompliance_js :: "raw_case option check" where
  "discountCompliance_js d =
     (case d of
        None \<Rightarrow> Inl TypeError
      | Some rc \<Rightarrow>
          if \<not> truthy_num (raw_discountRequested rc) \<or> raw_category rc \<noteq> ''pricing''
          then Inr (neutral_result ''discount_compliance'')
          else if inferSegment_raises rc \<or> inferDealType_raises rc then Inl TypeError
          else Inr (discountCompliance (to_typed rc)))"

definition minimumRequirements_js :: "raw_case option check" where
  "minimumRequirements_js d =
     (case d of
        None \<Rightarrow> Inl TypeError
      | Some rc \<Rightarrow>
          if inferSegment_raises rc \<or> inferDealType_raises rc then Inl TypeError
          else Inr (minimumRequirements (to_typed rc)))"

definition approvalWorkflow_js :: "raw_case option check" where
  "approvalWorkflow_js d =
     (case d of
        None \<Rightarrow> Inl TypeError
      | Some rc \<Rightarrow> Inr (approvalWorkflow (to_typed rc)))"

definition dealStructure_js :: "raw_case option check" where
  "dealStructure_js d =
     (case d of
        None \<Rightarrow> Inl TypeError
      | Some rc \<Rightarrow>
          if is_other (raw_description rc) then Inl TypeError
          else Inr (dealStructure (to_typed rc)))"

text \<open>
  \<^verbatim>\<open>caseData.competitorInfo && caseData.competitorInfo.trim().length > 0\<close> calls \<^verbatim>\<open>trim\<close>
  only on a truthy value; the description is lower-cased next.
\<close>

definition competitivePolicy_js :: "raw_case option check" where
  "competitivePolicy_js d =
     (case d of
        None \<Rightarrow> Inl TypeError
      | Some rc \<Rightarrow>
          if truthy_js (raw_competitorInfo rc) \<and> is_other (raw_competitorInfo rc)
          then Inl TypeError
          else if is_other (raw_description rc) then Inl TypeError
          else Inr (competitivePolicy (to_typed rc)))"

text \<open>The segment is inferred only for a pilot.\<close>

definition pilotProgramRules_js :: "raw_case option check" where
  "pilotProgramRules_js d =
     (case d of
        None \<Rightarrow> Inl TypeError
      | Some rc \<Rightarrow>
          if is_other (raw_description rc) then Inl TypeError
          else
            (let desc = lower_or_empty (text_of (raw_description rc));
                 isPilot = (js_includes desc ''pilot'' \<or> js_includes desc ''trial''
                            \<or> js_includes desc ''poc'')
             in if isPilot \<and> inferSegment_raises rc then Inl TypeError
                else Inr (pilotProgramRules (to_typed rc))))"

definition paymentTerms_js :: "raw_case option check" where
  "paymentTerms_js d =
     (case d of
        None \<Rightarrow> Inl TypeError
      | Some rc \<Rightarrow>
          if is_other (raw_description rc) then Inl TypeError
          else Inr (paymentTerms (to_typed rc)))"

definition technicalCompliance_js :: "raw_case option check" where
  "technicalCompliance_js d =
     (case d of
        None \<Rightarrow> Inl TypeError
      | Some rc \<Rightarrow>
          if raw_category rc \<noteq> ''technical'' then Inr (neutral_result ''technical_compliance'')
          else if is_other (raw_description rc) then Inl TypeError
          else Inr (technicalCompliance (to_typed rc)))"

definition legalCompliance_js :: "raw_case option check" where
  "legalCompliance_js d =
     (case d of
        None \<Rightarrow> Inl TypeError
      | Some rc \<Rightarrow>
          if raw_category rc \<noteq> ''legal'' then Inr (neutral_result ''legal_compliance'')
          else if is_other (raw_description rc) then Inl TypeError
          else Inr (legalCompliance (to_typed rc)))"

definition js_policy_checks :: "(string \<times> raw_case option check) list" where
  "js_policy_checks =
     [(''discountCompliance'', discountCompliance_js),
      (''minimumRequirements'', minimumRequirements_js),
      (''approvalWorkflow'', approvalWorkflow_js),
      (''dealStructure'', dealStructure_js),
      (''competitivePolicy'', competitivePolicy_js),
      (''pilotProgramRules'', pilotProgramRules_js),
      (''paymentTerms'', paymentTerms_js),
      (''technicalCompliance'', technicalCompliance_js),
      (''legalCompliance'', legalCompliance_js)]"

text \<open>
  The steps after the loop. \<^verbatim>\<open>getApprovalRequirements\<close> reads the deal value and the
  category; \<^verbatim>\<open>analyzePrecedents\<close> handles its own errors; \<^verbatim>\<open>assessRisk\<close> evaluates
  \<^verbatim>\<open>caseData.competitorInfo || caseData.description?.toLowerCase().includes('competitive')\<close>,
  which lower-cases the description only when the competitor information is falsy.
\<close>

definition getApprovalRequirements_js ::
  "raw_case option \<Rightarrow> results \<Rightarrow> js_error + approval_requirements" where
  "getApprovalRequirements_js d complianceResults =
     (case d of
        None \<Rightarrow> Inl TypeError
      | Some rc \<Rightarrow> Inr (getApprovalRequirements (to_typed rc) complianceResults))"

definition assessRisk_js :: "raw_case option \<Rightarrow> results \<Rightarrow> js_error + risk_assessment" where
  "assessRisk_js d complianceResults =
     (case d of
        None \<Rightarrow> Inl TypeError
      | Some rc \<Rightarrow>
          if truthy_js (raw_competitorInfo rc)
          then Inr (risk_from True (to_typed rc) complianceResults)
          else
            (case raw_description rc of
               Other _ \<Rightarrow> Inl TypeError
             | Undefined \<Rightarrow> Inr (risk_from False (to_typed rc) complianceResults)
             | Str s \<Rightarrow>
                 Inr (risk_from (js_includes (toLowerCase s) ''competitive'') (to_typed rc)
                        complianceResults)))"

text \<open>The object that the outer handler returns as \<^verbatim>\<open>fallback\<close>.\<close>

definition generateFallbackCompliance :: results where
  "generateFallbackCompliance =
     \<lparr>overallCompliance = ''unknown'', score = 50, violations = [],
      warnings =
        [\<lparr>i_type = ''system_error'', severity = ''medium'',
          message = [Lit ''Unable to complete compliance check - manual review required'']\<rparr>],
      recommendations =
        [\<lparr>rec_type = ''manual_review'', rec_priority = ''high'',
          rec_message = [Lit ''Submit for manual policy compliance review'']\<rparr>],
      approvalRequirements = None, riskAssessment = None, complianceChecks = Map.empty\<rparr>"

text \<open>
  The response: \<^verbatim>\<open>{success: true, compliance}\<close>, or \<^verbatim>\<open>{success: false, error, fallback}\<close>
  from the outer handler (the text of the error is left out).
\<close>

datatype compliance_outcome =
  is_Success: Success (the_compliance: results) | Failure (the_fallback: results)

definition checkCompliance_js_with ::
  "(string \<times> raw_case option check) list \<Rightarrow> raw_case option \<Rightarrow> compliance_outcome" where
  "checkCompliance_js_with checks d =
     (let r0 = run_checks checks d;
          r1 = r0\<lparr>overallCompliance := determineOverallCompliance r0\<rparr>
      in case getApprovalRequirements_js d r1 of
           Inl err \<Rightarrow> Failure generateFallbackCompliance
         | Inr ar \<Rightarrow>
             (let r2 = r1\<lparr>approvalRequirements := Some ar\<rparr>
              in case assessRisk_js d r2 of
                   Inl err \<Rightarrow> Failure generateFallbackCompliance
                 | Inr ra \<Rightarrow> Success (r2\<lparr>riskAssessment := Some ra\<rparr>)))"

definition checkCompliance_js :: "raw_case option \<Rightarrow> compliance_outcome" where
  "checkCompliance_js d = checkCompliance_js_with js_policy_checks d"


text \<open>
  The order of severities used to compare two results: a result with no violation ranks
  below every severity.
\<close>

definition severity_rank :: "string \<Rightarrow> nat" where
  "severity_rank s =
     (if s = ''high'' then 3 else if s = ''medium'' then 2 else if s = ''low'' then 1 else 0)"

definition max_violation_severity :: "results \<Rightarrow> nat" where
  "max_violation_severity res = fold max (map (\<lambda>v. severity_rank (severity v)) (violations res)) 0"

section \<open>Scenario Matcher\<close>






section \<open>Entity Extractor (MessageProcessor)\<close>

text \<open>
  \<^verbatim>\<open>parseFloat(s)\<close> on the strings the extractors pass to it: leading white space, an
  optional sign, digits, and an optional fraction; whatever follows is ignored, and a string
  with no digit is \<^verbatim>\<open>NaN\<close>. (Exponents and \<^verbatim>\<open>Infinity\<close> cannot occur in those strings and
  are not modelled.)
\<close>

definition parseFloat :: "string \<Rightarrow> jsnum" where
  "parseFloat s =
     (let t = dropWhile is_space s;
          neg = (t \<noteq> [] \<and> hd t = CHR ''-'');
          u = (if t \<noteq> [] \<and> (hd t = CHR ''-'' \<or> hd t = CHR ''+'') then tl t else t);
          ip = takeWhile is_digit u;
          r = dropWhile is_digit u;
          fp = (case r of c # r' \<Rightarrow> if c = CHR ''.'' then takeWhile is_digit r' else []
                | [] \<Rightarrow> []);
          v = of_nat (digits_val ip) + of_nat (digits_val fp) / 10 ^ length fp
      in if ip = [] \<and> fp = [] then None
         else Some (if neg then - v else v))"

text \<open>
  \<^verbatim>\<open>message.match(pattern)\<close> with a global pattern: all matches, left to right, each
  search resuming where the previous match ended. The pattern is given by the function
  that returns the text matched at the head of a string, if any; the patterns below never
  match the empty string.
\<close>

fun scan_matches :: "(string \<Rightarrow> string option) \<Rightarrow> string \<Rightarrow> string list" where
  "scan_matches m [] = []"
| "scan_matches m (c # cs) =
     (case m (c # cs) of
        Some w \<Rightarrow> w # scan_matches m (drop (length w - 1) cs)
      | None \<Rightarrow> scan_matches m cs)"

text \<open>
  \<^verbatim>\<open>/(\d+(?:\.\d+)?)%/\<close> at the head of a string. Both digit runs are taken whole: a shorter
  run would have to be followed by a digit where the pattern wants \<^verbatim>\<open>.\<close> or \<^verbatim>\<open>%\<close>.
\<close>

definition percentage_match_at :: "string \<Rightarrow> string option" where
  "percentage_match_at s =
     (let d1 = takeWhile is_digit s;
          r1 = dropWhile is_digit s
      in if d1 = [] then None
         else (case r1 of
                 [] \<Rightarrow> None
               | c # r2 \<Rightarrow>
                   if c = CHR ''%'' then Some (d1 @ ''%'')
                   else if c = CHR ''.'' then
                     (let d2 = takeWhile is_digit r2;
                          r3 = dropWhile is_digit r2
                      in if d2 \<noteq> [] \<and> starts_with r3 ''%''
                         then Some (d1 @ ''.'' @ d2 @ ''%'') else None)
                   else None))"

text \<open>The \<^verbatim>\<open>percentage\<close> entry of \<^verbatim>\<open>extractAllEntities\<close>: absent when nothing matches.\<close>

definition extract_percentage :: "string \<Rightarrow> jsnum list option" where
  "extract_percentage msg =
     (let matches = scan_matches percentage_match_at msg
      in if matches = [] then None
         else Some (map (\<lambda>m. parseFloat (remove_first ''%'' m)) matches))"

text \<open>
  \<^verbatim>\<open>/\$?([\d,]+(?:\.\d{2})?)[kKmM]?/\<close> at the head of a string. Everything after the run of
  digits and commas is optional, so the greedy choice at each step is the match.
\<close>

definition is_dc :: "char \<Rightarrow> bool" where
  "is_dc c = (is_digit c \<or> c = CHR '','')"

text \<open>The optional pieces of the pattern, each at the head of what is left of the string.\<close>

definition currency_dollar :: "string \<Rightarrow> string" where
  "currency_dollar s = (case s of c # _ \<Rightarrow> if c = CHR ''$'' then [c] else [] | [] \<Rightarrow> [])"

definition currency_fraction :: "string \<Rightarrow> string" where
  "currency_fraction r =
     (case r of
        c # a # b # _ \<Rightarrow> if c = CHR ''.'' \<and> is_digit a \<and> is_digit b then [c, a, b] else []
      | _ \<Rightarrow> [])"

definition currency_suffix :: "string \<Rightarrow> string" where
  "currency_suffix r = (case r of c # _ \<Rightarrow> if c \<in> set ''kKmM'' then [c] else [] | [] \<Rightarrow> [])"

definition currency_match_at :: "string \<Rightarrow> string option" where
  "currency_match_at s =
     (let dollar = currency_dollar s;
          s1 = drop (length dollar) s;
          body = takeWhile is_dc s1;
          r1 = dropWhile is_dc s1;
          frac = currency_fraction r1;
          r2 = drop (length frac) r1;
          suffix = currency_suffix r2
      in if body = [] then None
         else Some (dollar @ body @ frac @ suffix))"

text \<open>The callback of the currency extractor, applied to one matched text.\<close>

definition currency_value :: "string \<Rightarrow> jsnum" where
  "currency_value m =
     (let clean = filter (\<lambda>c. c \<noteq> CHR ''$'' \<and> c \<noteq> CHR '','') m;
          num = parseFloat clean
      in if js_includes (toLowerCase m) ''k'' then num_times num 1000
         else if js_includes (toLowerCase m) ''m'' then num_times num 1000000
         else num)"

text \<open>The \<^verbatim>\<open>currency\<close> entry of \<^verbatim>\<open>extractAllEntities\<close>.\<close>

definition extract_currency :: "string \<Rightarrow> jsnum list option" where
  "extract_currency msg =
     (let matches = scan_matches currency_match_at msg
      in if matches = [] then None
         else Some (map currency_value matches))"

text \<open>
  The left context of a percentage token. The digits of a token \<^verbatim>\<open>NN%\<close> begin the text or
  follow a character that is neither a digit nor a decimal point: otherwise they are the
  tail of a longer numeral.
\<close>

definition pct_boundary :: "string \<Rightarrow> bool" where
  "pct_boundary p = (p = [] \<or> (\<not> is_digit (last p) \<and> last p \<noteq> CHR ''.''))"

text \<open>
  The left context in which the currency pattern reads the same digits: the character
  before them is, in addition, not a comma.
\<close>

definition cur_boundary :: "string \<Rightarrow> bool" where
  "cur_boundary p = (p = [] \<or> (\<not> is_dc (last p) \<and> last p \<noteq> CHR ''.''))"

section \<open>Example inputs\<close>

text \<open>A case draft with every field empty; the examples below fill in what they need.\<close>

definition blank_case :: case_data where
  "blank_case =
     \<lparr>title = None, category = ''general'', priority = ''medium'', description = None,
      customerInfo = None, dealValue = Unset, discountRequested = Unset,
      c_timeframe = None, competitorInfo = None\<rparr>"

section \<open>Properties of the Policy Knowledge Store\<close>

lemma discount_range_0_10: "discount_range_matches p ''0-10%'' = (0 \<le> p \<and> p \<le> 10)"
proof -
  have a: "js_includes ''0-10%'' ''+'' = False" by code_simp
  have b: "map parseInt (split_on (CHR ''-'') ''0-10%'') = [Some 0, Some 10]" by code_simp
  show ?thesis
    unfolding discount_range_matches_def a b by (simp add: nth_opt_def num_ge_def num_le_def)
qed

lemma discount_range_11_20: "discount_range_matches p ''11-20%'' = (11 \<le> p \<and> p \<le> 20)"
proof -
  have a: "js_includes ''11-20%'' ''+'' = False" by code_simp
  have b: "map parseInt (split_on (CHR ''-'') ''11-20%'') = [Some 11, Some 20]" by code_simp
  show ?thesis
    unfolding discount_range_matches_def a b by (simp add: nth_opt_def num_ge_def num_le_def)
qed

lemma discount_range_21_30: "discount_range_matches p ''21-30%'' = (21 \<le> p \<and> p \<le> 30)"
proof -
  have a: "js_includes ''21-30%'' ''+'' = False" by code_simp
  have b: "map parseInt (split_on (CHR ''-'') ''21-30%'') = [Some 21, Some 30]" by code_simp
  show ?thesis
    unfolding discount_range_matches_def a b by (simp add: nth_opt_def num_ge_def num_le_def)
qed

lemma discount_range_31_plus: "discount_range_matches p ''31%+'' = (31 \<le> p)"
proof -
  have a: "js_includes ''31%+'' ''+'' = True" by code_simp
  have b: "parseInt (hd (split_on (CHR ''%'') ''31%+'')) = Some 31" by code_simp
  show ?thesis
    unfolding discount_range_matches_def a b by (simp add: num_ge_def)
qed

lemmas discount_range_simps =
  discount_range_0_10 discount_range_11_20 discount_range_21_30 discount_range_31_plus

text \<open>The discount bracket that \<^verbatim>\<open>find\<close> returns, as a function of the percentage.\<close>

lemma discountApproval_cases:
  "discountApproval (getApprovalRequirement p d) =
     (if 0 \<le> p \<and> p \<le> 10 then Some \<lparr>approver = ''Auto-approved'', timeframe = ''Immediate''\<rparr>
      else if 11 \<le> p \<and> p \<le> 20 then Some \<lparr>approver = ''Sales Manager'', timeframe = ''24 hours''\<rparr>
      else if 21 \<le> p \<and> p \<le> 30 then Some \<lparr>approver = ''Regional Director'', timeframe = ''48 hours''\<rparr>
      else if 31 \<le> p then Some \<lparr>approver = ''VP Sales + Finance'', timeframe = ''72 hours''\<rparr>
      else None)"
  by (simp add: getApprovalRequirement_def Let_def discountApproval_table_def discount_range_simps)

lemma standardDiscount_cases:
  "standardDiscount dt seg = Some e \<Longrightarrow>
     (dt, seg, e) \<in> set
       [(''newBusiness'', ''enterprise'', mk_entry 20 15 10),
        (''newBusiness'', ''midmarket'', mk_entry 15 10 7),
        (''newBusiness'', ''smb'', mk_entry 10 5 5),
        (''newBusiness'', ''largeEnterprise'', mk_entry 25 20 15),
        (''newBusiness'', ''globalAccounts'', mk_entry 30 25 20),
        (''renewal'', ''enterprise'', mk_entry 15 10 8),
        (''renewal'', ''midmarket'', mk_entry 12 8 5),
        (''renewal'', ''smb'', mk_entry 8 3 3),
        (''renewal'', ''largeEnterprise'', mk_entry 20 15 12),
        (''renewal'', ''globalAccounts'', mk_entry 25 20 15),
        (''addon'', ''all'', mk_entry 5 0 5)]"
  by (auto simp add: standardDiscount_def standard_policies_def split: option.splits if_splits)

lemma stored_entry_bounds:
  assumes "standardDiscount dt seg = Some e"
  shows "typical e \<le> max_d e" and "autoApproved e \<le> max_d e" and "0 < autoApproved e"
    and "dt \<noteq> ''addon'' \<Longrightarrow> autoApproved e \<le> typical e"
  using standardDiscount_cases[OF assms] by (auto simp add: mk_entry_def)

text \<open>
  C1, as the tables have it. Every stored entry has \<open>typical \<le> max\<close> and
  \<open>autoApproved \<le> max\<close>; \<open>autoApproved \<le> typical\<close> holds for every entry of the new-business
  and renewal tables. For an entry that exists, \<^verbatim>\<open>getDiscountPolicy\<close> returns it with the
  adjustment of the region and with \<open>effectiveMax = max + regionalAdjustment\<close>.
\<close>

theorem discount_policy_invariant:
  assumes "standardDiscount dealType segment = Some e"
  shows "typical e \<le> max_d e \<and> autoApproved e \<le> max_d e
         \<and> (dealType \<noteq> ''addon'' \<longrightarrow> autoApproved e \<le> typical e)
         \<and> getDiscountPolicy dealType segment region =
             Some \<lparr>p_max = max_d e, p_typical = typical e, p_autoApproved = autoApproved e,
                   regionalAdjustment = regional_adjustment region,
                   effectiveMax = max_d e + regional_adjustment region\<rparr>"
  using stored_entry_bounds[OF assms] assms by (simp add: getDiscountPolicy_def Let_def)

theorem discount_policy_invariant_witness:
  "standardDiscount ''renewal'' ''smb'' = Some (mk_entry 8 3 3)
   \<and> ''renewal'' \<noteq> ''addon''
   \<and> autoApproved (mk_entry 8 3 3) \<le> typical (mk_entry 8 3 3)
   \<and> getDiscountPolicy ''renewal'' ''smb'' (Some ''apac'') =
       Some \<lparr>p_max = 8, p_typical = 3, p_autoApproved = 3, regionalAdjustment = 7,
             effectiveMax = 15\<rparr>"
proof -
  have h: "standardDiscount ''renewal'' ''smb'' = Some (mk_entry 8 3 3)" by code_simp
  have r: "regional_adjustment (Some ''apac'') = 7" by code_simp
  show ?thesis
    using discount_policy_invariant[OF h, of "Some ''apac''"] h r by (simp add: mk_entry_def)
qed

text \<open>
  C1 as stated fails at the add-on entry: its auto-approved limit, 5, is above its typical
  discount, 0.
\<close>

theorem addon_autoApproved_above_typical:
  "standardDiscount ''addon'' ''all'' = Some (mk_entry 5 0 5)
   \<and> \<not> (autoApproved (mk_entry 5 0 5) \<le> typical (mk_entry 5 0 5))"
proof -
  have h: "standardDiscount ''addon'' ''all'' = Some (mk_entry 5 0 5)" by code_simp
  show ?thesis using h by (simp add: mk_entry_def)
qed

text \<open>
  C9: a discount percentage strictly between 10 and 11, 20 and 21, or 30 and 31 falls in
  no discount bracket, whatever the deal size: \<^verbatim>\<open>discountApproval\<close> is undefined.
\<close>

theorem fractional_discount_has_no_bracket:
  "(10 < p \<and> p < 11) \<or> (20 < p \<and> p < 21) \<or> (30 < p \<and> p < 31) \<Longrightarrow>
     discountApproval (getApprovalRequirement p dealSize) = None"
  by (auto simp add: discountApproval_cases)

theorem fractional_discount_has_no_bracket_witness:
  "((10::rat) < 21 / 2 \<and> (21 / 2 :: rat) < 11)
   \<and> discountApproval (getApprovalRequirement (21 / 2) 60000) = None"
  using fractional_discount_has_no_bracket[of "21 / 2" 60000] by simp

section \<open>Properties of the Case Router\<close>

text \<open>
  C3: the router reports a case as auto-approvable exactly when its complexity score is at
  most 2 and the requested discount (as the router reads it: 0 when the field is empty) is at
  most 10; an auto-approvable case goes to \<^verbatim>\<open>Auto-approved\<close> at level 1 with an immediate
  timeline; and a low-priority pricing case of 20000 with a 5 percent discount, no competitor
  and no description is auto-approvable.
\<close>

theorem autoApprovable_iff:
  "r_autoApprovable (routeCase cd) =
      (complexityScore (analyzeCaseComplexity cd) \<le> 2 \<and> parseFloat_or0 (discountRequested cd) \<le> 10)
   \<and> (r_autoApprovable (routeCase cd) \<longrightarrow>
        r_primaryApprover (routeCase cd) = ''Auto-approved''
        \<and> r_expectedTimeline (routeCase cd) = ''Immediate''
        \<and> r_approvalLevel (routeCase cd) = 1)
   \<and> (discountRequested cd = Num 5 \<and> dealValue cd = Num 20000 \<and> category cd = ''pricing''
        \<and> priority cd = ''low'' \<and> competitorInfo cd = None \<and> description cd = None \<longrightarrow>
        r_autoApprovable (routeCase cd)
        \<and> r_primaryApprover (routeCase cd) = ''Auto-approved''
        \<and> r_expectedTimeline (routeCase cd) = ''Immediate'')"
proof -
  have a: "r_autoApprovable (routeCase cd) =
      (complexityScore (analyzeCaseComplexity cd) \<le> 2 \<and> parseFloat_or0 (discountRequested cd) \<le> 10)"
    by (simp add: routeCase_def analyzeCaseComplexity_def Let_def split: prod.splits)
  have b: "r_primaryApprover (routeCase cd) = ''Auto-approved''
        \<and> r_expectedTimeline (routeCase cd) = ''Immediate''
        \<and> r_approvalLevel (routeCase cd) = 1" if "r_autoApprovable (routeCase cd)"
    using that
    by (simp add: routeCase_def determineApprovalLevel_def primary_approval_def Let_def
             split: prod.splits)
  have c: "r_autoApprovable (routeCase cd)"
    if "discountRequested cd = Num 5" "dealValue cd = Num 20000" "category cd = ''pricing''"
       "priority cd = ''low''" "competitorInfo cd = None" "description cd = None"
  proof -
    have "complexity_score cd = 1"
      using that
      by (simp add: complexity_score_def Let_def parseFloat_or0_def field_parseFloat_def
            lookup_or_def categoryComplexity_def priorityMultiplier_def truthy_text_def)
    then show ?thesis
      using that unfolding a
      by (simp add: analyzeCaseComplexity_def Let_def parseFloat_or0_def field_parseFloat_def
               split: prod.splits)
  qed
  show ?thesis using a b c by blast
qed

theorem autoApprovable_iff_witness:
  "r_autoApprovable (routeCase (blank_case\<lparr>category := ''pricing'', priority := ''low'',
       dealValue := Num 20000, discountRequested := Num 5\<rparr>))
   \<and> r_primaryApprover (routeCase (blank_case\<lparr>category := ''pricing'', priority := ''low'',
       dealValue := Num 20000, discountRequested := Num 5\<rparr>)) = ''Auto-approved''
   \<and> r_expectedTimeline (routeCase (blank_case\<lparr>category := ''pricing'', priority := ''low'',
       dealValue := Num 20000, discountRequested := Num 5\<rparr>)) = ''Immediate''
   \<and> r_approvalLevel (routeCase (blank_case\<lparr>category := ''pricing'', priority := ''low'',
       dealValue := Num 20000, discountRequested := Num 5\<rparr>)) = 1"
proof -
  let ?c = "blank_case\<lparr>category := ''pricing'', priority := ''low'',
       dealValue := Num 20000, discountRequested := Num 5\<rparr>"
  have pre: "discountRequested ?c = Num 5 \<and> dealValue ?c = Num 20000 \<and> category ?c = ''pricing''
        \<and> priority ?c = ''low'' \<and> competitorInfo ?c = None \<and> description ?c = None"
    by (simp add: blank_case_def)
  note t = autoApprovable_iff[of ?c]
  from t pre have a: "r_autoApprovable (routeCase ?c)" by blast
  from t a show ?thesis by blast
qed

text \<open>
  C4, as the router has it: for a deal value above 500000 the secondary approver is set
  exactly when the risk level is high or the approval level is at least 4, and then it is
  the General Counsel for a legal case and the CEO otherwise.
\<close>

theorem secondary_for_high_value:
  assumes "parseFloat_or0 (dealValue cd) > 500000"
  shows "r_secondaryApprover (routeCase cd) =
     (if r_riskLevel (routeCase cd) = ''high'' \<or> r_approvalLevel (routeCase cd) \<ge> 4
      then (if category cd = ''legal'' then Some ''General Counsel'' else Some ''CEO'')
      else None)"
  using assms
  by (simp add: routeCase_def determineApprovalLevel_def Let_def split: prod.splits)

theorem secondary_for_high_value_witness:
  "parseFloat_or0 (dealValue (blank_case\<lparr>category := ''pricing'', priority := ''critical'',
       dealValue := Num 600000, discountRequested := Num 35\<rparr>)) > 500000
   \<and> r_approvalLevel (routeCase (blank_case\<lparr>category := ''pricing'', priority := ''critical'',
       dealValue := Num 600000, discountRequested := Num 35\<rparr>)) = 5
   \<and> r_secondaryApprover (routeCase (blank_case\<lparr>category := ''pricing'', priority := ''critical'',
       dealValue := Num 600000, discountRequested := Num 35\<rparr>)) = Some ''CEO''"
proof -
  have h: "parseFloat_or0 (dealValue (blank_case\<lparr>category := ''pricing'', priority := ''critical'',
       dealValue := Num 600000, discountRequested := Num 35\<rparr>)) > 500000"
    by code_simp
  have l: "r_approvalLevel (routeCase (blank_case\<lparr>category := ''pricing'',
       priority := ''critical'', dealValue := Num 600000, discountRequested := Num 35\<rparr>)) = 5"
    by code_simp
  show ?thesis
    using secondary_for_high_value[OF h] h l by (simp add: blank_case_def)
qed

text \<open>
  C4 as stated fails: a legal case of 600000 with a 5 percent discount and low priority has
  medium risk and approval level 2, and gets no secondary approver.
\<close>

theorem high_value_without_secondary:
  "parseFloat_or0 (dealValue \<lparr>title = None, category = ''legal'', priority = ''low'',
        description = None, customerInfo = None, dealValue = Num 600000,
        discountRequested = Num 5, c_timeframe = None, competitorInfo = None\<rparr>) > 500000
   \<and> r_secondaryApprover (routeCase \<lparr>title = None, category = ''legal'', priority = ''low'',
        description = None, customerInfo = None, dealValue = Num 600000,
        discountRequested = Num 5, c_timeframe = None, competitorInfo = None\<rparr>) = None"
  by code_simp

section \<open>Properties of the Compliance Checker\<close>

lemma run_check_fields:
  "violations (run_check cd res nc) =
     violations res @ (case snd nc cd of Inr r \<Rightarrow> ck_violations r | Inl _ \<Rightarrow> [])"
  "warnings (run_check cd res nc) = warnings res @ warnings_of cd nc"
  "recommendations (run_check cd res nc) =
     recommendations res @ (case snd nc cd of Inr r \<Rightarrow> ck_recommendations r | Inl _ \<Rightarrow> [])"
  "score (run_check cd res nc) =
     (case snd nc cd of Inr r \<Rightarrow> min (score res) (ck_score r) | Inl _ \<Rightarrow> score res)"
  by (simp_all add: run_check_def warnings_of_def split: sum.splits)

lemma returned_Cons:
  "returned (nc # checks) cd =
     (case snd nc cd of Inr r \<Rightarrow> [r] | Inl _ \<Rightarrow> []) @ returned checks cd"
  by (simp add: returned_def)

lemma foldl_violations:
  "violations (foldl (run_check cd) res checks) =
     violations res @ concat (map ck_violations (returned checks cd))"
proof (induction checks arbitrary: res)
  case Nil
  then show ?case by (simp add: returned_def)
next
  case (Cons nc checks)
  show ?case
    by (simp add: Cons.IH run_check_fields returned_Cons split: sum.splits)
qed

lemma foldl_warnings:
  "warnings (foldl (run_check cd) res checks) =
     warnings res @ concat (map (warnings_of cd) checks)"
proof (induction checks arbitrary: res)
  case Nil
  then show ?case by simp
next
  case (Cons nc checks)
  show ?case by (simp add: Cons.IH run_check_fields)
qed

lemma foldl_recommendations:
  "recommendations (foldl (run_check cd) res checks) =
     recommendations res @ concat (map ck_recommendations (returned checks cd))"
proof (induction checks arbitrary: res)
  case Nil
  then show ?case by (simp add: returned_def)
next
  case (Cons nc checks)
  show ?case
    by (simp add: Cons.IH run_check_fields returned_Cons split: sum.splits)
qed

lemma foldl_score:
  "score (foldl (run_check cd) res checks) =
     fold min (map ck_score (returned checks cd)) (score res)"
proof (induction checks arbitrary: res)
  case Nil
  then show ?case by (simp add: returned_def)
next
  case (Cons nc checks)
  show ?case
    by (simp add: Cons.IH run_check_fields returned_Cons min.commute split: sum.splits)
qed

lemmas run_checks_fold = foldl_violations foldl_warnings foldl_recommendations foldl_score

lemma fold_min_Min: "fold min xs (a::rat) = Min (set (a # xs))"
  by (metis Min.set_eq_fold)

lemma run_checks_violations:
  "violations (run_checks checks cd) = concat (map ck_violations (returned checks cd))"
  by (simp add: run_checks_def run_checks_fold initial_results_def)

lemma run_checks_warnings:
  "warnings (run_checks checks cd) = concat (map (warnings_of cd) checks)"
  by (simp add: run_checks_def run_checks_fold initial_results_def)


lemma run_checks_score:
  "score (run_checks checks cd) = Min (set (100 # map ck_score (returned checks cd)))"
  by (simp add: run_checks_def run_checks_fold initial_results_def fold_min_Min)

lemma checkCompliance_with_fields:
  "violations (compliance (checkCompliance_with checks cd)) = violations (run_checks checks cd)"
  "warnings (compliance (checkCompliance_with checks cd)) = warnings (run_checks checks cd)"
  "recommendations (compliance (checkCompliance_with checks cd)) = recommendations (run_checks checks cd)"
  "score (compliance (checkCompliance_with checks cd)) = score (run_checks checks cd)"
  "overallCompliance (compliance (checkCompliance_with checks cd))
     = determineOverallCompliance (run_checks checks cd)"
  "success (checkCompliance_with checks cd) = True"
  by (simp_all add: checkCompliance_with_def Let_def)

lemma determineOverallCompliance_alt:
  "determineOverallCompliance res =
     (if list_ex (\<lambda>v. severity v = ''high'') (violations res) then ''non_compliant''
      else if violations res \<noteq> [] \<or> warnings res \<noteq> [] then ''conditional''
      else ''compliant'')"
  by (auto simp add: determineOverallCompliance_def list_ex_iff filter_empty_conv)

lemma returned_policy_checks:
  "returned policy_checks cd =
     [discountCompliance cd, minimumRequirements cd, approvalWorkflow cd, dealStructure cd,
      competitivePolicy cd, pilotProgramRules cd, paymentTerms cd, technicalCompliance cd,
      legalCompliance cd]"
  by (simp add: returned_def policy_checks_def)

lemma warnings_policy_checks:
  "concat (map (warnings_of cd) policy_checks) = concat (map ck_warnings (returned policy_checks cd))"
  by (simp add: returned_def policy_checks_def warnings_of_def)


text \<open>
  C2: the overall score is the minimum of 100 and the scores of the nine checks, the
  violations and warnings are those of the nine checks in order, and the overall compliance
  is \<^verbatim>\<open>non_compliant\<close> when some violation has severity \<^verbatim>\<open>high\<close>, else \<^verbatim>\<open>conditional\<close> when
  there is any violation or warning, else \<^verbatim>\<open>compliant\<close>.
\<close>

theorem compliance_aggregation:
  "score (compliance (checkCompliance cd)) =
      min 100 (Min (set (map ck_score (returned policy_checks cd))))
   \<and> violations (compliance (checkCompliance cd)) = concat (map ck_violations (returned policy_checks cd))
   \<and> warnings (compliance (checkCompliance cd)) = concat (map ck_warnings (returned policy_checks cd))
   \<and> overallCompliance (compliance (checkCompliance cd)) =
       (if list_ex (\<lambda>v. severity v = ''high'') (violations (compliance (checkCompliance cd)))
        then ''non_compliant''
        else if violations (compliance (checkCompliance cd)) \<noteq> []
                \<or> warnings (compliance (checkCompliance cd)) \<noteq> [] then ''conditional''
        else ''compliant'')
   \<and> returned policy_checks cd =
     [discountCompliance cd, minimumRequirements cd, approvalWorkflow cd, dealStructure cd,
      competitivePolicy cd, pilotProgramRules cd, paymentTerms cd, technicalCompliance cd,
      legalCompliance cd]"
proof -
  have ne: "returned policy_checks cd \<noteq> []" by (simp add: returned_policy_checks)
  have "score (compliance (checkCompliance cd)) = Min (set (100 # map ck_score (returned policy_checks cd)))"
    by (simp only: checkCompliance_def checkCompliance_with_fields run_checks_score)
  also have "\<dots> = min 100 (Min (set (map ck_score (returned policy_checks cd))))"
    using ne by (simp add: Min_insert)
  finally have s: "score (compliance (checkCompliance cd)) =
      min 100 (Min (set (map ck_score (returned policy_checks cd))))" .
  have v: "violations (compliance (checkCompliance cd)) = concat (map ck_violations (returned policy_checks cd))"
    by (simp only: checkCompliance_def checkCompliance_with_fields run_checks_violations)
  have w: "warnings (compliance (checkCompliance cd)) = concat (map ck_warnings (returned policy_checks cd))"
    by (simp only: checkCompliance_def checkCompliance_with_fields run_checks_warnings warnings_policy_checks)
  have oc: "overallCompliance (compliance (checkCompliance cd)) =
       (if list_ex (\<lambda>v. severity v = ''high'') (violations (compliance (checkCompliance cd)))
        then ''non_compliant''
        else if violations (compliance (checkCompliance cd)) \<noteq> []
                \<or> warnings (compliance (checkCompliance cd)) \<noteq> [] then ''conditional''
        else ''compliant'')"
    by (simp only: checkCompliance_def checkCompliance_with_fields determineOverallCompliance_alt)
  show ?thesis using s v w oc returned_policy_checks by blast
qed



theorem compliance_aggregation_witness:
  "score (compliance (checkCompliance (blank_case\<lparr>category := ''pricing'',
       dealValue := Num 20000, discountRequested := Num 12\<rparr>))) = 70
   \<and> min 100 (Min (set (map ck_score (returned policy_checks (blank_case\<lparr>category := ''pricing'',
       dealValue := Num 20000, discountRequested := Num 12\<rparr>))))) = 70
   \<and> \<not> list_ex (\<lambda>v. severity v = ''high'')
         (violations (compliance (checkCompliance (blank_case\<lparr>category := ''pricing'',
            dealValue := Num 20000, discountRequested := Num 12\<rparr>))))
   \<and> warnings (compliance (checkCompliance (blank_case\<lparr>category := ''pricing'',
       dealValue := Num 20000, discountRequested := Num 12\<rparr>))) \<noteq> []
   \<and> overallCompliance (compliance (checkCompliance (blank_case\<lparr>category := ''pricing'',
       dealValue := Num 20000, discountRequested := Num 12\<rparr>))) = ''conditional''"
proof -
  let ?c = "blank_case\<lparr>category := ''pricing'', dealValue := Num 20000,
       discountRequested := Num 12\<rparr>"
  have s: "score (compliance (checkCompliance ?c)) = 70" by code_simp
  have v: "violations (compliance (checkCompliance ?c)) = []" by code_simp
  have w: "map i_type (warnings (compliance (checkCompliance ?c))) = [''approval_required'']"
    by code_simp
  then have wn: "warnings (compliance (checkCompliance ?c)) \<noteq> []" by auto
  note t = compliance_aggregation[of ?c]
  have "min 100 (Min (set (map ck_score (returned policy_checks ?c))))
          = score (compliance (checkCompliance ?c))"
    by (rule t[THEN conjunct1, symmetric])
  also have "\<dots> = 70" by (rule s)
  finally have m: "min 100 (Min (set (map ck_score (returned policy_checks ?c)))) = 70" .
  note d = t[THEN conjunct2, THEN conjunct2, THEN conjunct2, THEN conjunct1]
  have nh: "\<not> list_ex (\<lambda>v. severity v = ''high'') (violations (compliance (checkCompliance ?c)))"
    unfolding v by simp
  have oc: "overallCompliance (compliance (checkCompliance ?c)) = ''conditional''"
    using d nh wn by (simp only: if_False if_True simp_thms)
  show ?thesis using s m nh wn oc by (intro conjI)
qed

lemma neutral_discount:
  "category cd \<noteq> ''pricing'' \<or> \<not> truthy_num (discountRequested cd) \<Longrightarrow>
     discountCompliance cd = neutral_result ''discount_compliance''"
  by (auto simp add: discountCompliance_def Let_def)















text \<open>
  On a case draft whose text fields are strings or undefined no check raises, and the
  response is the successful one of \<open>checkCompliance\<close>.
\<close>

lemma js_checks_typed:
  assumes "\<not> is_other (raw_title rc)" "\<not> is_other (raw_description rc)"
    "\<not> is_other (raw_customerInfo rc)" "\<not> is_other (raw_competitorInfo rc)"
  shows "discountCompliance_js (Some rc) = Inr (discountCompliance (to_typed rc))"
    and "minimumRequirements_js (Some rc) = Inr (minimumRequirements (to_typed rc))"
    and "approvalWorkflow_js (Some rc) = Inr (approvalWorkflow (to_typed rc))"
    and "dealStructure_js (Some rc) = Inr (dealStructure (to_typed rc))"
    and "competitivePolicy_js (Some rc) = Inr (competitivePolicy (to_typed rc))"
    and "pilotProgramRules_js (Some rc) = Inr (pilotProgramRules (to_typed rc))"
    and "paymentTerms_js (Some rc) = Inr (paymentTerms (to_typed rc))"
    and "technicalCompliance_js (Some rc) = Inr (technicalCompliance (to_typed rc))"
    and "legalCompliance_js (Some rc) = Inr (legalCompliance (to_typed rc))"
proof -
  have c: "category (to_typed rc) = raw_category rc"
    "discountRequested (to_typed rc) = raw_discountRequested rc"
    by (simp_all add: to_typed_def)
  show "discountCompliance_js (Some rc) = Inr (discountCompliance (to_typed rc))"
  proof (cases "\<not> truthy_num (raw_discountRequested rc) \<or> raw_category rc \<noteq> ''pricing''")
    case True
    then have "discountCompliance (to_typed rc) = neutral_result ''discount_compliance''"
      using neutral_discount[of "to_typed rc"] unfolding c by blast
    with True show ?thesis by (simp add: discountCompliance_js_def)
  next
    case False
    with assms show ?thesis
      by (simp add: discountCompliance_js_def inferSegment_raises_def inferDealType_raises_def)
  qed
  show "minimumRequirements_js (Some rc) = Inr (minimumRequirements (to_typed rc))"
    using assms
    by (simp add: minimumRequirements_js_def inferSegment_raises_def inferDealType_raises_def)
  show "approvalWorkflow_js (Some rc) = Inr (approvalWorkflow (to_typed rc))"
    by (simp add: approvalWorkflow_js_def)
  show "dealStructure_js (Some rc) = Inr (dealStructure (to_typed rc))"
    using assms by (simp add: dealStructure_js_def)
  show "competitivePolicy_js (Some rc) = Inr (competitivePolicy (to_typed rc))"
    using assms by (simp add: competitivePolicy_js_def)
  show "pilotProgramRules_js (Some rc) = Inr (pilotProgramRules (to_typed rc))"
    using assms by (simp add: pilotProgramRules_js_def inferSegment_raises_def Let_def)
  show "paymentTerms_js (Some rc) = Inr (paymentTerms (to_typed rc))"
    using assms by (simp add: paymentTerms_js_def)
  have nt: "raw_category rc \<noteq> ''technical'' \<Longrightarrow>
              technicalCompliance (to_typed rc) = neutral_result ''technical_compliance''"
    by (simp add: technicalCompliance_def c)
  have nl: "raw_category rc \<noteq> ''legal'' \<Longrightarrow>
              legalCompliance (to_typed rc) = neutral_result ''legal_compliance''"
    by (simp add: legalCompliance_def c)
  show "technicalCompliance_js (Some rc) = Inr (technicalCompliance (to_typed rc))"
    using assms nt by (simp add: technicalCompliance_js_def)
  show "legalCompliance_js (Some rc) = Inr (legalCompliance (to_typed rc))"
    using assms nl by (simp add: legalCompliance_js_def)
qed

lemma foldl_run_check_values:
  "foldl (run_check d) res checks =
     foldl (run_check ()) res (map (\<lambda>nc. (fst nc, \<lambda>_. snd nc d)) checks)"
  by (induction checks arbitrary: res) (simp_all add: run_check_def split: sum.splits)

lemma run_checks_values:
  "run_checks checks d =
     foldl (run_check ()) initial_results (map (\<lambda>nc. (fst nc, \<lambda>_. snd nc d)) checks)"
  unfolding run_checks_def by (rule foldl_run_check_values)

lemma run_checks_typed:
  assumes "\<not> is_other (raw_title rc)" "\<not> is_other (raw_description rc)"
    "\<not> is_other (raw_customerInfo rc)" "\<not> is_other (raw_competitorInfo rc)"
  shows "run_checks js_policy_checks (Some rc) = run_checks policy_checks (to_typed rc)"
proof -
  have "map (\<lambda>nc. (fst nc, \<lambda>_::unit. snd nc (Some rc))) js_policy_checks
          = map (\<lambda>nc. (fst nc, \<lambda>_::unit. snd nc (to_typed rc))) policy_checks"
    unfolding js_policy_checks_def policy_checks_def list.map fst_conv snd_conv
      js_checks_typed[OF assms] by (rule refl)
  then show ?thesis
    by (simp only: run_checks_values)
qed


lemma assessRisk_js_typed:
  assumes "\<not> is_other (raw_description rc)" "\<not> is_other (raw_competitorInfo rc)"
  shows "assessRisk_js (Some rc) res = Inr (assessRisk (to_typed rc) res)"
  using assms
  by (cases "raw_description rc"; cases "raw_competitorInfo rc")
     (simp_all add: assessRisk_js_def assessRisk_def to_typed_def is_other_def truthy_js_def
        truthy_text_def text_of_def)

lemma checkCompliance_js_typed:
  assumes "\<not> is_other (raw_title rc)" "\<not> is_other (raw_description rc)"
    "\<not> is_other (raw_customerInfo rc)" "\<not> is_other (raw_competitorInfo rc)"
  shows "checkCompliance_js (Some rc) = Success (compliance (checkCompliance (to_typed rc)))"
  by (simp add: checkCompliance_js_def checkCompliance_js_with_def checkCompliance_def
        checkCompliance_with_def Let_def getApprovalRequirements_js_def
        run_checks_typed[OF assms] assessRisk_js_typed[OF assms(2) assms(4)])

lemma infer_ignore_discount [simp]:
  "inferSegment (cd\<lparr>discountRequested := f\<rparr>) = inferSegment cd"
  "inferDealType (cd\<lparr>discountRequested := f\<rparr>) = inferDealType cd"
  by (simp_all add: inferSegment_def inferDealType_def)

lemma minimumRequirements_ignores_discount:
  "minimumRequirements (cd\<lparr>discountRequested := f\<rparr>) = minimumRequirements cd"
  by (simp add: minimumRequirements_def Let_def split del: if_split cong: if_cong)

lemma dealStructure_ignores_discount:
  "dealStructure (cd\<lparr>discountRequested := f\<rparr>) = dealStructure cd"
  by (simp add: dealStructure_def Let_def split del: if_split cong: if_cong)

lemma competitivePolicy_ignores_discount:
  "competitivePolicy (cd\<lparr>discountRequested := f\<rparr>) = competitivePolicy cd"
  by (simp add: competitivePolicy_def Let_def split del: if_split cong: if_cong)

lemma pilotProgramRules_ignores_discount:
  "pilotProgramRules (cd\<lparr>discountRequested := f\<rparr>) = pilotProgramRules cd"
  by (simp add: pilotProgramRules_def Let_def split del: if_split cong: if_cong)

lemma paymentTerms_ignores_discount:
  "paymentTerms (cd\<lparr>discountRequested := f\<rparr>) = paymentTerms cd"
  by (simp add: paymentTerms_def Let_def split del: if_split cong: if_cong)

lemma technicalCompliance_ignores_discount:
  "technicalCompliance (cd\<lparr>discountRequested := f\<rparr>) = technicalCompliance cd"
  by (simp add: technicalCompliance_def Let_def split del: if_split cong: if_cong)

lemma legalCompliance_ignores_discount:
  "legalCompliance (cd\<lparr>discountRequested := f\<rparr>) = legalCompliance cd"
  by (simp add: legalCompliance_def Let_def split del: if_split cong: if_cong)

lemmas checks_ignore_discount =
  minimumRequirements_ignores_discount dealStructure_ignores_discount
  competitivePolicy_ignores_discount pilotProgramRules_ignores_discount
  paymentTerms_ignores_discount technicalCompliance_ignores_discount
  legalCompliance_ignores_discount

lemma approvalWorkflow_score_violations:
  "ck_score (approvalWorkflow cd) = 100" "ck_violations (approvalWorkflow cd) = []"
  by (simp_all add: approvalWorkflow_def Let_def neutral_result_def)

lemma policy_bounds:
  assumes "getDiscountPolicy dt seg r = Some pol"
  shows "0 < p_autoApproved pol" and "p_autoApproved pol \<le> p_max pol"
proof -
  from assms obtain e where e: "standardDiscount dt seg = Some e"
    and p: "p_autoApproved pol = autoApproved e" "p_max pol = max_d e"
    by (auto simp add: getDiscountPolicy_def Let_def split: option.splits)
  show "0 < p_autoApproved pol" using stored_entry_bounds(3)[OF e] p by simp
  show "p_autoApproved pol \<le> p_max pol" using stored_entry_bounds(2)[OF e] p by simp
qed

lemma truthy_nonzero: "field_parseFloat f = Some d \<Longrightarrow> d \<noteq> 0 \<Longrightarrow> truthy_num f"
  by (cases f) (simp_all add: field_parseFloat_def truthy_num_def)

lemma discountCompliance_no_policy:
  "category cd \<noteq> ''pricing'' \<or> getDiscountPolicy (inferDealType cd) (inferSegment cd) None = None \<Longrightarrow>
     ck_score (discountCompliance cd) = 100 \<and> ck_violations (discountCompliance cd) = []"
  by (auto simp add: discountCompliance_def Let_def neutral_result_def)

lemma discountCompliance_with_policy:
  assumes "category cd = ''pricing''"
    and "getDiscountPolicy (inferDealType cd) (inferSegment cd) None = Some pol"
    and "field_parseFloat (discountRequested cd) = Some d"
  shows "ck_score (discountCompliance cd) =
           (if truthy_num (discountRequested cd) \<and> d > p_max pol then 20
            else if truthy_num (discountRequested cd) \<and> d > p_autoApproved pol then 70
            else 100)"
    and "map severity (ck_violations (discountCompliance cd)) =
           (if truthy_num (discountRequested cd) \<and> d > p_max pol then [''high''] else [])"
  using assms by (auto simp add: discountCompliance_def Let_def neutral_result_def)

lemma discountCompliance_monotone:
  assumes d1: "field_parseFloat (discountRequested cd) = Some d1"
    and d2: "field_parseFloat f2 = Some d2" and lt: "d1 < d2"
  shows "ck_score (discountCompliance (cd\<lparr>discountRequested := f2\<rparr>))
           \<le> ck_score (discountCompliance cd)"
    and "set (map severity (ck_violations (discountCompliance cd)))
           \<subseteq> set (map severity (ck_violations (discountCompliance (cd\<lparr>discountRequested := f2\<rparr>))))"
proof -
  let ?cd2 = "cd\<lparr>discountRequested := f2\<rparr>"
  consider (np) "category cd \<noteq> ''pricing'' \<or>
        getDiscountPolicy (inferDealType cd) (inferSegment cd) None = None"
    | (p) pol where "category cd = ''pricing''"
        "getDiscountPolicy (inferDealType cd) (inferSegment cd) None = Some pol"
    by (cases "getDiscountPolicy (inferDealType cd) (inferSegment cd) None") auto
  then have "ck_score (discountCompliance ?cd2) \<le> ck_score (discountCompliance cd)
     \<and> set (map severity (ck_violations (discountCompliance cd)))
           \<subseteq> set (map severity (ck_violations (discountCompliance ?cd2)))"
  proof cases
    case np
    then have "category ?cd2 \<noteq> ''pricing'' \<or>
        getDiscountPolicy (inferDealType ?cd2) (inferSegment ?cd2) None = None" by simp
    from discountCompliance_no_policy[OF np] discountCompliance_no_policy[OF this]
    show ?thesis by simp
  next
    case p
    have p2: "category ?cd2 = ''pricing''"
        "getDiscountPolicy (inferDealType ?cd2) (inferSegment ?cd2) None = Some pol"
        "field_parseFloat (discountRequested ?cd2) = Some d2"
      using p d2 by simp_all
    note a = discountCompliance_with_policy[OF p(1) p(2) d1]
    note b = discountCompliance_with_policy[OF p2]
    note pb = policy_bounds[OF p(2)]
    have t2: "truthy_num f2" if "d2 > p_autoApproved pol"
      using truthy_nonzero[OF d2] that pb by auto
    show ?thesis
      unfolding a b using lt pb t2 by auto
  qed
  then show "ck_score (discountCompliance (cd\<lparr>discountRequested := f2\<rparr>))
           \<le> ck_score (discountCompliance cd)"
    and "set (map severity (ck_violations (discountCompliance cd)))
           \<subseteq> set (map severity (ck_violations (discountCompliance (cd\<lparr>discountRequested := f2\<rparr>))))"
    by blast+
qed

lemma max_violation_severity_Max:
  "max_violation_severity res = Max (insert 0 (severity_rank ` severity ` set (violations res)))"
proof -
  have "max_violation_severity res
         = Max (set (0 # map (\<lambda>v. severity_rank (severity v)) (violations res)))"
    unfolding max_violation_severity_def by (metis Max.set_eq_fold)
  also have "set (0 # map (\<lambda>v. severity_rank (severity v)) (violations res))
         = insert 0 (severity_rank ` severity ` set (violations res))"
    by (simp add: image_image)
  finally show ?thesis .
qed

lemma Min_insert_mono:
  fixes a b :: rat
  assumes "finite S" and "a \<le> b"
  shows "Min (insert a S) \<le> Min (insert b S)"
proof (cases "S = {}")
  case True
  then show ?thesis using assms by simp
next
  case False
  then show ?thesis using assms by (simp add: Min_insert min.coboundedI1 min.coboundedI2 min_le_iff_disj)
qed


text \<open>
  C5: when the requested discount grows and nothing else changes, the score does not grow
  and the highest severity among the violations does not fall.
\<close>

theorem discount_monotonicity:
  assumes d1: "field_parseFloat (discountRequested cd) = Some d1"
    and d2: "field_parseFloat f2 = Some d2" and lt: "d1 < d2"
  shows "score (compliance (checkCompliance (cd\<lparr>discountRequested := f2\<rparr>)))
           \<le> score (compliance (checkCompliance cd))
       \<and> max_violation_severity (compliance (checkCompliance cd))
           \<le> max_violation_severity (compliance (checkCompliance (cd\<lparr>discountRequested := f2\<rparr>)))"
proof -
  let ?cd2 = "cd\<lparr>discountRequested := f2\<rparr>"
  let ?others = "[minimumRequirements cd, dealStructure cd, competitivePolicy cd,
      pilotProgramRules cd, paymentTerms cd, technicalCompliance cd, legalCompliance cd]"
  note m = discountCompliance_monotone[OF d1 d2 lt]
  have sc: "score (compliance (checkCompliance c)) =
      Min (set (100 # map ck_score (returned policy_checks c)))" for c
    by (simp only: checkCompliance_def checkCompliance_with_fields run_checks_score)
  have vi: "violations (compliance (checkCompliance c)) =
      concat (map ck_violations (returned policy_checks c))" for c
    by (simp only: checkCompliance_def checkCompliance_with_fields run_checks_violations)
  have scores: "set (100 # map ck_score (returned policy_checks c)) =
      insert (ck_score (discountCompliance c))
        (insert 100 (set (map ck_score
           [minimumRequirements c, dealStructure c, competitivePolicy c,
            pilotProgramRules c, paymentTerms c, technicalCompliance c, legalCompliance c])))" for c
    unfolding returned_policy_checks
    by (simp add: approvalWorkflow_score_violations insert_commute)
  have viols: "set (concat (map ck_violations (returned policy_checks c))) =
      set (ck_violations (discountCompliance c)) \<union>
      set (concat (map ck_violations
           [minimumRequirements c, dealStructure c, competitivePolicy c,
            pilotProgramRules c, paymentTerms c, technicalCompliance c, legalCompliance c]))" for c
    unfolding returned_policy_checks
    by (simp add: approvalWorkflow_score_violations Un_assoc)
  have same: "[minimumRequirements ?cd2, dealStructure ?cd2, competitivePolicy ?cd2,
            pilotProgramRules ?cd2, paymentTerms ?cd2, technicalCompliance ?cd2,
            legalCompliance ?cd2] = ?others"
    by (simp only: checks_ignore_discount)
  have s: "score (compliance (checkCompliance ?cd2)) \<le> score (compliance (checkCompliance cd))"
    unfolding sc scores same
    by (rule Min_insert_mono) (use m(1) in simp_all)
  have sub: "severity ` set (violations (compliance (checkCompliance cd)))
          \<subseteq> severity ` set (violations (compliance (checkCompliance ?cd2)))"
    unfolding vi viols same image_Un
    using m(2) by (simp only: set_map) blast
  have "Max (insert 0 (severity_rank ` severity ` set (violations (compliance (checkCompliance cd)))))
      \<le> Max (insert 0 (severity_rank ` severity ` set (violations (compliance (checkCompliance ?cd2)))))"
    by (rule Max_mono) (use sub in auto)
  then have v: "max_violation_severity (compliance (checkCompliance cd))
           \<le> max_violation_severity (compliance (checkCompliance ?cd2))"
    by (simp only: max_violation_severity_Max)
  show ?thesis using s v by blast
qed

theorem discount_monotonicity_witness:
  "field_parseFloat (discountRequested (blank_case\<lparr>category := ''pricing'',
       dealValue := Num 20000, discountRequested := Num 5\<rparr>)) = Some 5
   \<and> field_parseFloat (Num 35) = Some 35 \<and> (5::rat) < 35
   \<and> score (compliance (checkCompliance (blank_case\<lparr>category := ''pricing'',
       dealValue := Num 20000, discountRequested := Num 5\<rparr>))) = 100
   \<and> score (compliance (checkCompliance (blank_case\<lparr>category := ''pricing'',
       dealValue := Num 20000, discountRequested := Num 5, discountRequested := Num 35\<rparr>)))
        \<le> score (compliance (checkCompliance (blank_case\<lparr>category := ''pricing'',
       dealValue := Num 20000, discountRequested := Num 5\<rparr>)))
   \<and> max_violation_severity (compliance (checkCompliance (blank_case\<lparr>category := ''pricing'',
       dealValue := Num 20000, discountRequested := Num 5\<rparr>)))
        \<le> max_violation_severity (compliance (checkCompliance (blank_case\<lparr>category := ''pricing'',
       dealValue := Num 20000, discountRequested := Num 5, discountRequested := Num 35\<rparr>)))"
proof -
  let ?c = "blank_case\<lparr>category := ''pricing'', dealValue := Num 20000,
       discountRequested := Num 5\<rparr>"
  have h1: "field_parseFloat (discountRequested ?c) = Some 5"
    by (simp add: field_parseFloat_def)
  have h2: "field_parseFloat (Num 35) = Some 35" by (simp add: field_parseFloat_def)
  have h3: "(5::rat) < 35" by simp
  have e: "score (compliance (checkCompliance ?c)) = 100" by code_simp
  show ?thesis
    using discount_monotonicity[OF h1 h2 h3] h1 h2 e by simp
qed

section \<open>Properties of the Scenario Matcher\<close>







section \<open>Properties of the Entity Extractor\<close>


lemma scan_step_Some:
  assumes "m s = Some w" and "w \<noteq> []" and "s = w @ rest"
  shows "scan_matches m s = w # scan_matches m rest"
proof -
  from assms(2) obtain d ds where w: "w = d # ds" by (cases w) auto
  have s: "s = d # (ds @ rest)" using assms(3) w by simp
  have "drop (length w - 1) (ds @ rest) = rest" by (simp add: w)
  then show ?thesis using assms(1) unfolding s by simp
qed

lemma scan_step_None:
  assumes "m (c # cs) = None"
  shows "scan_matches m (c # cs) = scan_matches m cs"
  using assms by simp

lemma scan_no_match:
  "(\<And>s. m s \<noteq> None \<Longrightarrow> x \<in> set s) \<Longrightarrow> x \<notin> set msg \<Longrightarrow> scan_matches m msg = []"
proof (induction msg)
  case Nil
  then show ?case by simp
next
  case (Cons c cs)
  have "m (c # cs) = None"
  proof (rule ccontr)
    assume "m (c # cs) \<noteq> None"
    from Cons.prems(1)[OF this] Cons.prems(2) show False by simp
  qed
  moreover have "scan_matches m cs = []"
    using Cons.IH Cons.prems by auto
  ultimately show ?case by simp
qed

lemma scan_member:
  "w \<in> set (scan_matches m msg) \<Longrightarrow> \<exists>a b. msg = a @ b \<and> m b = Some w"
proof (induction m msg rule: scan_matches.induct)
  case (1 m)
  then show ?case by simp
next
  case (2 m c cs)
  show ?case
  proof (cases "m (c # cs)")
    case None
    with 2 obtain a b where "cs = a @ b" "m b = Some w" by auto
    then have "c # cs = (c # a) @ b \<and> m b = Some w" by simp
    then show ?thesis by blast
  next
    case (Some w')
    show ?thesis
    proof (cases "w = w'")
      case True
      then have "c # cs = [] @ (c # cs) \<and> m (c # cs) = Some w" using Some by simp
      then show ?thesis by blast
    next
      case False
      with 2 Some have "w \<in> set (scan_matches m (drop (length w' - 1) cs))" by simp
      from 2(2)[OF Some this] obtain a b
        where ab: "drop (length w' - 1) cs = a @ b" "m b = Some w" by blast
      have "c # cs = (c # take (length w' - 1) cs @ a) @ b"
        using ab(1) by (metis append.assoc append_Cons append_take_drop_id)
      then show ?thesis using ab(2) by blast
    qed
  qed
qed

text \<open>
  Scanning through a prefix whose matches stay inside it. \<open>B\<close> describes the prefixes,
  \<open>Q\<close> the match that is wanted at the end of the prefix.
\<close>

lemma scan_through_prefix:
  assumes start: "\<exists>w. m X = Some w \<and> w \<noteq> [] \<and> Q w \<and> X = w @ post"
    and tail: "\<And>c p. B (c # p) \<Longrightarrow> B p"
    and loc: "\<And>p w. B p \<Longrightarrow> p \<noteq> [] \<Longrightarrow> m (p @ X) = Some w \<Longrightarrow>
               w \<noteq> [] \<and> ((\<exists>p'. p = w @ p' \<and> B p') \<or> (Q w \<and> p @ X = w @ post))"
  shows "B pre \<Longrightarrow> \<exists>ms w. scan_matches m (pre @ X) = ms @ w # scan_matches m post \<and> Q w"
proof (induction pre rule: length_induct)
  case (1 pre)
  show ?case
  proof (cases pre)
    case Nil
    from start obtain w where w: "m X = Some w" "w \<noteq> []" "Q w" "X = w @ post" by blast
    have "scan_matches m X = w # scan_matches m post"
      using scan_step_Some[of m X w post] w by blast
    then have "scan_matches m (pre @ X) = [] @ w # scan_matches m post \<and> Q w"
      using Nil w(3) by simp
    then show ?thesis by blast
  next
    case (Cons c p)
    show ?thesis
    proof (cases "m (pre @ X)")
      case None
      have Bp: "B p" using tail "1.prems" Cons by blast
      have "length p < length pre" using Cons by simp
      with 1 Bp obtain ms w where
        "scan_matches m (p @ X) = ms @ w # scan_matches m post" "Q w" by blast
      moreover have "scan_matches m (pre @ X) = scan_matches m (p @ X)"
        using None Cons by simp
      ultimately show ?thesis by metis
    next
      case (Some w)
      have ne: "pre \<noteq> []" using Cons by simp
      from loc[OF "1.prems" ne Some] have wne: "w \<noteq> []"
        and alt: "(\<exists>p'. pre = w @ p' \<and> B p') \<or> (Q w \<and> pre @ X = w @ post)" by blast+
      from alt show ?thesis
      proof
        assume "\<exists>p'. pre = w @ p' \<and> B p'"
        then obtain p' where p': "pre = w @ p'" "B p'" by blast
        have "length p' < length pre" using p'(1) wne by simp
        with 1 p'(2) obtain ms w2 where r:
          "scan_matches m (p' @ X) = ms @ w2 # scan_matches m post" "Q w2" by blast
        have "pre @ X = w @ (p' @ X)" using p'(1) by simp
        from scan_step_Some[of m "pre @ X" w "p' @ X"] Some wne this
        have "scan_matches m (pre @ X) = (w # ms) @ w2 # scan_matches m post"
          using r(1) by simp
        then show ?thesis using r(2) by blast
      next
        assume a: "Q w \<and> pre @ X = w @ post"
        then have "scan_matches m (pre @ X) = [] @ w # scan_matches m post"
          using scan_step_Some[of m "pre @ X" w post] Some wne by simp
        then show ?thesis using a by blast
      qed
    qed
  qed
qed

lemma digit_facts:
  assumes "is_digit c"
  shows "c \<noteq> CHR ''%''" "c \<noteq> CHR ''.''" "c \<noteq> CHR '',''" "c \<noteq> CHR ''$''"
    "\<not> is_space c" "c \<noteq> CHR ''-''" "c \<noteq> CHR ''+''" "c \<notin> set ''kKmM''" "lower_char c = c"
  using assms by (auto simp add: is_digit_def is_space_def lower_char_def)

lemma not_digit_pct: "\<not> is_digit CHR ''%''" "\<not> is_digit CHR ''.''" "\<not> is_digit CHR ''$''"
  by (simp_all add: is_digit_def)

lemma pct_boundary_tail: "pct_boundary (c # p) \<Longrightarrow> pct_boundary p"
  by (auto simp add: pct_boundary_def)

lemma split_at_nondigit:
  assumes "p \<noteq> []" and "\<not> P (last p)"
  shows "takeWhile P (p @ X) = takeWhile P p"
    and "dropWhile P (p @ X) = dropWhile P p @ X"
    and "dropWhile P p \<noteq> []"
    and "last (dropWhile P p) = last p"
proof -
  have m: "last p \<in> set p" using assms(1) by simp
  show "takeWhile P (p @ X) = takeWhile P p" using m assms(2) by (rule takeWhile_append1)
  show "dropWhile P (p @ X) = dropWhile P p @ X" using m assms(2) by (rule dropWhile_append1)
  show "dropWhile P p \<noteq> []" using m assms(2) by auto
  show "last (dropWhile P p) = last p" using m assms(2) by (rule dropWhile_last)
qed

lemma pm_at_start:
  assumes "ds \<noteq> []" and "\<forall>c\<in>set ds. is_digit c"
  shows "percentage_match_at (ds @ CHR ''%'' # post) = Some (ds @ ''%'')"
proof -
  have t: "takeWhile is_digit (ds @ CHR ''%'' # post) = ds"
    using assms(2) by (simp add: takeWhile_append2 not_digit_pct)
  have d: "dropWhile is_digit (ds @ CHR ''%'' # post) = CHR ''%'' # post"
    using assms(2) by (simp add: dropWhile_append2 not_digit_pct)
  show ?thesis
    unfolding percentage_match_at_def t d using assms(1) by simp
qed

lemma pm_at_shape:
  assumes "percentage_match_at b = Some w"
  shows "\<exists>num rest. b = num @ ''%'' @ rest \<and> w = num @ ''%'' \<and> num \<noteq> [] \<and> is_digit (hd num)"
proof -
  let ?d1 = "takeWhile is_digit b"
  let ?r1 = "dropWhile is_digit b"
  have b: "b = ?d1 @ ?r1" by simp
  from assms have d1: "?d1 \<noteq> []"
    by (auto simp add: percentage_match_at_def Let_def split: if_splits)
  then have hd1: "is_digit (hd ?d1)"
    by (metis hd_in_set set_takeWhileD)
  from assms d1 obtain c r2 where r1: "?r1 = c # r2"
    by (cases ?r1) (auto simp add: percentage_match_at_def Let_def)
  show ?thesis
  proof (cases "c = CHR ''%''")
    case True
    then have w: "w = ?d1 @ ''%''"
      using assms d1 r1 by (simp add: percentage_match_at_def Let_def)
    have "b = ?d1 @ ''%'' @ r2" using b r1 True by (metis append_Cons append_Nil)
    then show ?thesis using w d1 hd1 by blast
  next
    case False
    let ?d2 = "takeWhile is_digit r2"
    let ?r3 = "dropWhile is_digit r2"
    from assms d1 r1 False have dot: "c = CHR ''.''" and d2: "?d2 \<noteq> []"
      and sw: "starts_with ?r3 ''%''" and w: "w = ?d1 @ ''.'' @ ?d2 @ ''%''"
      by (auto simp add: percentage_match_at_def Let_def split: if_splits)
    from sw obtain r4 where r3: "?r3 = CHR ''%'' # r4"
      by (cases ?r3) (auto simp add: starts_with_def)
    have "r2 = ?d2 @ ?r3" by simp
    then have r2: "r2 = ?d2 @ CHR ''%'' # r4" using r3 by simp
    have "b = ?d1 @ CHR ''.'' # r2" using b r1 dot by simp
    then have "b = (?d1 @ ''.'' @ ?d2) @ ''%'' @ r4" using r2 by simp
    moreover have "w = (?d1 @ ''.'' @ ?d2) @ ''%''" using w by simp
    moreover have "?d1 @ ''.'' @ ?d2 \<noteq> []" using d1 by simp
    moreover have "is_digit (hd (?d1 @ ''.'' @ ?d2))" using d1 hd1 by simp
    ultimately show ?thesis by blast
  qed
qed

lemma pm_at_has_percent: "percentage_match_at s \<noteq> None \<Longrightarrow> CHR ''%'' \<in> set s"
proof -
  assume "percentage_match_at s \<noteq> None"
  then obtain w where "percentage_match_at s = Some w" by auto
  from pm_at_shape[OF this] show ?thesis by auto
qed

lemma pm_at_within:
  assumes B: "pct_boundary p" and ne: "p \<noteq> []"
    and m: "percentage_match_at (p @ X) = Some w"
  shows "w \<noteq> [] \<and> (\<exists>p'. p = w @ p' \<and> pct_boundary p')"
proof -
  from B ne have nd: "\<not> is_digit (last p)" and ndot: "last p \<noteq> CHR ''.''"
    by (auto simp add: pct_boundary_def)
  let ?d1 = "takeWhile is_digit p"
  let ?r = "dropWhile is_digit p"
  note s1 = split_at_nondigit[where P = is_digit and p = p, OF ne nd]
  have p: "p = ?d1 @ ?r" by simp
  from s1(3) obtain c r2 where r: "?r = c # r2" by (cases ?r) auto
  have lr: "last (c # r2) = last p" using s1(4) r by simp
  from m have d1: "?d1 \<noteq> []"
    unfolding percentage_match_at_def s1(1) s1(2) by (auto simp add: Let_def split: if_splits)
  show ?thesis
  proof (cases "c = CHR ''%''")
    case True
    then have w: "w = ?d1 @ ''%''"
      using m d1 unfolding percentage_match_at_def s1(1) s1(2) r by (simp add: Let_def)
    have pw: "p = w @ r2" using p r True w by (metis append.assoc append_Cons append_Nil)
    have "pct_boundary r2"
    proof (cases "r2 = []")
      case True
      then show ?thesis by (simp add: pct_boundary_def)
    next
      case False
      then have "last r2 = last p" using lr by simp
      then show ?thesis using nd ndot by (simp add: pct_boundary_def)
    qed
    then show ?thesis using pw w by blast
  next
    case False
    from m d1 False have dot: "c = CHR ''.''"
      unfolding percentage_match_at_def s1(1) s1(2) r
      by (auto simp add: Let_def split: if_splits)
    have r2ne: "r2 \<noteq> []"
    proof
      assume "r2 = []"
      then have "last p = CHR ''.''" using lr dot by simp
      then show False using ndot by simp
    qed
    then have lr2: "last r2 = last p" using lr by simp
    then have nd2: "\<not> is_digit (last r2)" using nd by simp
    note s2 = split_at_nondigit[where P = is_digit and p = r2, OF r2ne nd2]
    let ?d2 = "takeWhile is_digit r2"
    let ?r3 = "dropWhile is_digit r2"
    from m d1 False dot have sw: "starts_with (?r3 @ X) ''%''" and w: "w = ?d1 @ ''.'' @ ?d2 @ ''%''"
      unfolding percentage_match_at_def s1(1) s1(2) r
      by (auto simp add: Let_def s2(1) s2(2) split: if_splits)
    from s2(3) obtain e r4 where r3: "?r3 = e # r4" by (cases ?r3) auto
    from sw r3 have e: "e = CHR ''%''" by (simp add: starts_with_def)
    have "r2 = ?d2 @ ?r3" by simp
    then have r2: "r2 = ?d2 @ CHR ''%'' # r4" using r3 e by simp
    have "p = ?d1 @ CHR ''.'' # r2" using p r dot by simp
    then have pw: "p = w @ r4" using r2 w by simp
    have "pct_boundary r4"
    proof (cases "r4 = []")
      case True
      then show ?thesis by (simp add: pct_boundary_def)
    next
      case False
      have "last ?r3 = last r2" using s2(4) .
      then have "last r4 = last p" using r3 False lr2 by simp
      then show ?thesis using nd ndot by (simp add: pct_boundary_def)
    qed
    then show ?thesis using pw w by blast
  qed
qed

lemma digits_val_snoc: "digits_val (ds @ [c]) = 10 * digits_val ds + digit_val c"
  by (simp add: digits_val_def)

lemma parseFloat_digits:
  assumes "ds \<noteq> []" and "\<forall>c\<in>set ds. is_digit c"
  shows "parseFloat ds = Some (of_nat (digits_val ds))"
proof -
  from assms obtain c cs where ds: "ds = c # cs" by (cases ds) auto
  have c: "is_digit c" using assms(2) ds by simp
  have a: "dropWhile is_space ds = ds" using digit_facts(5)[OF c] ds by simp
  have t: "takeWhile is_digit ds = ds" using assms(2) by simp
  have d: "dropWhile is_digit ds = []" using assms(2) by simp
  have h: "hd ds \<noteq> CHR ''-''" "hd ds \<noteq> CHR ''+''"
    using digit_facts(6,7)[OF c] ds by simp_all
  show ?thesis
    unfolding parseFloat_def a using h assms(1)
    by (simp add: Let_def t d digits_val_def)
qed

lemma remove_first_pct:
  "\<forall>c\<in>set ds. is_digit c \<Longrightarrow> remove_first ''%'' (ds @ ''%'') = ds"
proof (induction ds)
  case Nil
  then show ?case by (simp add: starts_with_def)
next
  case (Cons a ds)
  then have "a \<noteq> CHR ''%''" using digit_facts(1) by auto
  then show ?case using Cons by (simp add: starts_with_def)
qed


lemma cur_boundary_tail: "cur_boundary (c # p) \<Longrightarrow> cur_boundary p"
  by (auto simp add: cur_boundary_def)

lemma cur_boundary_pct: "cur_boundary p \<Longrightarrow> pct_boundary p"
  by (auto simp add: cur_boundary_def pct_boundary_def is_dc_def)

lemma digits_are_dc: "\<forall>c\<in>set ds. is_digit c \<Longrightarrow> \<forall>c\<in>set ds. is_dc c"
  by (simp add: is_dc_def)

lemma not_dc_pct: "\<not> is_dc CHR ''%''" "\<not> is_dc CHR ''$''"
  by (simp_all add: is_dc_def is_digit_def)

lemma fraction_pct: "currency_fraction (CHR ''%'' # post) = []"
  by (simp add: currency_fraction_def split: list.splits)

lemma suffix_pct: "currency_suffix (CHR ''%'' # post) = []"
  by (simp add: currency_suffix_def)

lemma cm_at_start:
  assumes "ds \<noteq> []" and "\<forall>c\<in>set ds. is_digit c"
  shows "currency_match_at (ds @ CHR ''%'' # post) = Some ds"
proof -
  from assms obtain c cs where ds: "ds = c # cs" by (cases ds) auto
  have "c \<noteq> CHR ''$''" using assms(2) ds digit_facts(4) by simp
  then have dl: "currency_dollar (ds @ CHR ''%'' # post) = []"
    by (simp add: currency_dollar_def ds)
  have t: "takeWhile is_dc (ds @ CHR ''%'' # post) = ds"
    using digits_are_dc[OF assms(2)] by (simp add: takeWhile_append2 not_dc_pct)
  have d: "dropWhile is_dc (ds @ CHR ''%'' # post) = CHR ''%'' # post"
    using digits_are_dc[OF assms(2)] by (simp add: dropWhile_append2 not_dc_pct)
  show ?thesis
    unfolding currency_match_at_def dl using assms(1)
    by (simp add: Let_def t d fraction_pct suffix_pct)
qed

lemma cm_at_dollar:
  assumes "ds \<noteq> []" and "\<forall>c\<in>set ds. is_digit c"
  shows "currency_match_at (CHR ''$'' # ds @ CHR ''%'' # post) = Some (CHR ''$'' # ds)"
proof -
  have dl: "currency_dollar (CHR ''$'' # ds @ CHR ''%'' # post) = ''$''"
    by (simp add: currency_dollar_def)
  have t: "takeWhile is_dc (ds @ CHR ''%'' # post) = ds"
    using digits_are_dc[OF assms(2)] by (simp add: takeWhile_append2 not_dc_pct)
  have d: "dropWhile is_dc (ds @ CHR ''%'' # post) = CHR ''%'' # post"
    using digits_are_dc[OF assms(2)] by (simp add: dropWhile_append2 not_dc_pct)
  show ?thesis
    unfolding currency_match_at_def dl using assms(1)
    by (simp add: Let_def t d fraction_pct suffix_pct)
qed

lemma fraction_within:
  assumes "r \<noteq> []" and "\<not> is_digit (last r)" and "last r \<noteq> CHR ''.''"
  shows "currency_fraction (r @ X) = currency_fraction r"
    and "\<exists>r'. r = currency_fraction r @ r' \<and> r' \<noteq> [] \<and> last r' = last r"
proof -
  consider (one) c where "r = [c]" | (two) c a where "r = [c, a]"
    | (more) c a b t where "r = c # a # b # t"
    using assms(1) by (metis list.exhaust)
  then have "currency_fraction (r @ X) = currency_fraction r
      \<and> (\<exists>r'. r = currency_fraction r @ r' \<and> r' \<noteq> [] \<and> last r' = last r)"
  proof cases
    case one
    then have "c \<noteq> CHR ''.''" using assms(3) by simp
    then show ?thesis using one by (simp add: currency_fraction_def split: list.splits)
  next
    case two
    then have "\<not> is_digit a" using assms(2) by simp
    then show ?thesis using two by (simp add: currency_fraction_def split: list.splits)
  next
    case more
    show ?thesis
    proof (cases "c = CHR ''.'' \<and> is_digit a \<and> is_digit b")
      case True
      then have f: "currency_fraction r = [c, a, b]" "currency_fraction (r @ X) = [c, a, b]"
        using more by (simp_all add: currency_fraction_def)
      have "t \<noteq> []" using assms(2) more True by auto
      then have "r = currency_fraction r @ t \<and> t \<noteq> [] \<and> last t = last r"
        using more f by simp
      then show ?thesis using f by metis
    next
      case False
      then have f: "currency_fraction r = []" "currency_fraction (r @ X) = []"
        using more by (auto simp add: currency_fraction_def)
      then show ?thesis using assms(1) by simp
    qed
  qed
  then show "currency_fraction (r @ X) = currency_fraction r"
    and "\<exists>r'. r = currency_fraction r @ r' \<and> r' \<noteq> [] \<and> last r' = last r" by blast+
qed

lemma suffix_within:
  assumes "r \<noteq> []"
  shows "currency_suffix (r @ X) = currency_suffix r"
    and "\<exists>r'. r = currency_suffix r @ r' \<and> (r' = [] \<or> last r' = last r)"
proof -
  from assms obtain c t where r: "r = c # t" by (cases r) auto
  show "currency_suffix (r @ X) = currency_suffix r" by (simp add: r currency_suffix_def)
  show "\<exists>r'. r = currency_suffix r @ r' \<and> (r' = [] \<or> last r' = last r)"
  proof (cases "c \<in> set ''kKmM''")
    case True
    then have "currency_suffix r = [c]" by (simp add: r currency_suffix_def)
    then have "r = currency_suffix r @ t \<and> (t = [] \<or> last t = last r)" using r by simp
    then show ?thesis by blast
  next
    case False
    then have "currency_suffix r = []" by (simp add: r currency_suffix_def)
    then have "r = currency_suffix r @ r \<and> (r = [] \<or> last r = last r)" by simp
    then show ?thesis by blast
  qed
qed

lemma currency_match_at_unfold:
  "currency_match_at s =
     (if takeWhile is_dc (drop (length (currency_dollar s)) s) = [] then None
      else Some (currency_dollar s
                 @ takeWhile is_dc (drop (length (currency_dollar s)) s)
                 @ currency_fraction (dropWhile is_dc (drop (length (currency_dollar s)) s))
                 @ currency_suffix
                     (drop (length (currency_fraction
                                     (dropWhile is_dc (drop (length (currency_dollar s)) s))))
                           (dropWhile is_dc (drop (length (currency_dollar s)) s)))))"
  by (simp add: currency_match_at_def Let_def)

text \<open>A match that starts at a string \<open>p1\<close> with no dollar sign in front stays inside it.\<close>

lemma cm_body_within:
  assumes ne: "p1 \<noteq> []" and ndc: "\<not> is_dc (last p1)" and ndot: "last p1 \<noteq> CHR ''.''"
    and body: "takeWhile is_dc (p1 @ X) \<noteq> []"
  shows "\<exists>p'. p1 = takeWhile is_dc (p1 @ X)
                   @ currency_fraction (dropWhile is_dc (p1 @ X))
                   @ currency_suffix (drop (length (currency_fraction (dropWhile is_dc (p1 @ X))))
                                           (dropWhile is_dc (p1 @ X)))
                   @ p'
              \<and> cur_boundary p'"
proof -
  note s = split_at_nondigit[where P = is_dc and p = p1, OF ne ndc]
  let ?body = "takeWhile is_dc p1"
  let ?r = "dropWhile is_dc p1"
  have nd: "\<not> is_digit (last p1)" using ndc by (simp add: is_dc_def)
  have lr: "last ?r = last p1" by (rule s(4))
  have rnd: "\<not> is_digit (last ?r)" "last ?r \<noteq> CHR ''.''" using lr nd ndot by simp_all
  have f1: "currency_fraction (?r @ X) = currency_fraction ?r"
    by (rule fraction_within(1)[OF s(3) rnd])
  from fraction_within(2)[OF s(3) rnd] obtain r' where r': "?r = currency_fraction ?r @ r'" "r' \<noteq> []" "last r' = last ?r"
    by blast
  have g1: "currency_suffix (r' @ X) = currency_suffix r'"
    by (rule suffix_within(1)[OF r'(2)])
  from suffix_within(2)[OF r'(2)] obtain r'' where r'': "r' = currency_suffix r' @ r''" "r'' = [] \<or> last r'' = last r'"
    by blast
  have dr: "drop (length (currency_fraction ?r)) (?r @ X) = r' @ X"
    using r'(1) by (metis append.assoc append_eq_conv_conj)
  have "p1 = ?body @ ?r" by simp
  also have "\<dots> = ?body @ currency_fraction ?r @ r'" using r'(1) by simp
  also have "\<dots> = ?body @ currency_fraction ?r @ currency_suffix r' @ r''" using r''(1) by simp
  finally have p1: "p1 = ?body @ currency_fraction ?r @ currency_suffix r' @ r''" .
  have B: "cur_boundary r''"
    using r''(2) r'(3) lr ndc ndot by (auto simp add: cur_boundary_def)
  show ?thesis
    unfolding s(1) s(2) f1 dr g1 using p1 B by blast
qed

lemma cm_at_within:
  assumes ds: "ds \<noteq> []" "\<forall>c\<in>set ds. is_digit c"
    and B: "cur_boundary p" and ne: "p \<noteq> []"
    and m: "currency_match_at (p @ ds @ CHR ''%'' # post) = Some w"
  shows "w \<noteq> [] \<and> ((\<exists>p'. p = w @ p' \<and> cur_boundary p')
                    \<or> (w = CHR ''$'' # ds \<and> p @ ds @ CHR ''%'' # post = w @ CHR ''%'' # post))"
proof -
  let ?X = "ds @ CHR ''%'' # post"
  from B ne have ndc: "\<not> is_dc (last p)" and ndot: "last p \<noteq> CHR ''.''"
    by (auto simp add: cur_boundary_def)
  from ne obtain c t where p: "p = c # t" by (cases p) auto
  show ?thesis
  proof (cases "c = CHR ''$''")
    case False
    then have dl: "currency_dollar (p @ ?X) = []" by (simp add: p currency_dollar_def)
    have s1: "drop (length ([]::string)) (p @ ?X) = p @ ?X" by simp
    from m have body: "takeWhile is_dc (p @ ?X) \<noteq> []"
      unfolding currency_match_at_unfold dl s1 by (simp split: if_splits)
    from m body have w: "w = takeWhile is_dc (p @ ?X)
                   @ currency_fraction (dropWhile is_dc (p @ ?X))
                   @ currency_suffix (drop (length (currency_fraction (dropWhile is_dc (p @ ?X))))
                                           (dropWhile is_dc (p @ ?X)))"
      unfolding currency_match_at_unfold dl s1 by simp
    from cm_body_within[OF ne ndc ndot body] obtain p' where
      "p = w @ p'" "cur_boundary p'" unfolding w by auto
    moreover have "w \<noteq> []" using body w by simp
    ultimately show ?thesis by blast
  next
    case True
    then have dl: "currency_dollar (p @ ?X) = ''$''" by (simp add: p currency_dollar_def)
    show ?thesis
    proof (cases "t = []")
      case True
      have "currency_match_at (CHR ''$'' # ds @ CHR ''%'' # post) = Some (CHR ''$'' # ds)"
        by (rule cm_at_dollar[OF ds])
      then have "w = CHR ''$'' # ds" using m p \<open>c = CHR ''$''\<close> True by simp
      moreover have "p @ ?X = (CHR ''$'' # ds) @ CHR ''%'' # post"
        using p \<open>c = CHR ''$''\<close> True by simp
      ultimately show ?thesis by simp
    next
      case False
      have lt: "last t = last p" using p False by simp
      have s1: "drop (length ''$'') (p @ ?X) = t @ ?X"
        using p by simp
      from m have body: "takeWhile is_dc (t @ ?X) \<noteq> []"
        unfolding currency_match_at_unfold dl s1 by (simp split: if_splits)
      from m body have w: "w = ''$'' @ takeWhile is_dc (t @ ?X)
                   @ currency_fraction (dropWhile is_dc (t @ ?X))
                   @ currency_suffix (drop (length (currency_fraction (dropWhile is_dc (t @ ?X))))
                                           (dropWhile is_dc (t @ ?X)))"
        unfolding currency_match_at_unfold dl s1 by simp
      have "\<not> is_dc (last t)" "last t \<noteq> CHR ''.''" using lt ndc ndot by simp_all
      from cm_body_within[OF False this body] obtain p' where
        "t = takeWhile is_dc (t @ ?X)
                   @ currency_fraction (dropWhile is_dc (t @ ?X))
                   @ currency_suffix (drop (length (currency_fraction (dropWhile is_dc (t @ ?X))))
                                           (dropWhile is_dc (t @ ?X))) @ p'"
        "cur_boundary p'" by blast
      then have "p = w @ p'" using p \<open>c = CHR ''$''\<close> w by simp
      moreover have "w \<noteq> []" using w by simp
      ultimately show ?thesis using \<open>cur_boundary p'\<close> by blast
    qed
  qed
qed

lemma includes_single: "js_includes s [c] = (c \<in> set s)"
  by (induction s) (auto simp add: starts_with_def)

lemma lower_digits: "\<forall>c\<in>set ds. is_digit c \<Longrightarrow> toLowerCase ds = ds"
  by (simp add: toLowerCase_def digit_facts(9) map_idI)

lemma currency_value_digits:
  assumes "ds \<noteq> []" and "\<forall>c\<in>set ds. is_digit c"
  shows "currency_value ds = Some (of_nat (digits_val ds))"
    and "currency_value (CHR ''$'' # ds) = Some (of_nat (digits_val ds))"
proof -
  have cl: "filter (\<lambda>c. c \<noteq> CHR ''$'' \<and> c \<noteq> CHR '','') ds = ds"
    using assms(2) digit_facts(3,4) by (simp add: filter_id_conv)
  have lw: "toLowerCase (CHR ''$'' # ds) = CHR ''$'' # ds"
    using lower_digits[OF assms(2)] by (simp add: toLowerCase_def lower_char_def)
  have nk: "CHR ''k'' \<notin> set ds" "CHR ''m'' \<notin> set ds"
    using assms(2) digit_facts(8) by auto
  show "currency_value ds = Some (of_nat (digits_val ds))"
    unfolding currency_value_def Let_def cl lower_digits[OF assms(2)] includes_single
    using nk parseFloat_digits[OF assms] by simp
  show "currency_value (CHR ''$'' # ds) = Some (of_nat (digits_val ds))"
    unfolding currency_value_def Let_def lw includes_single
    using nk parseFloat_digits[OF assms] cl by simp
qed

lemma percentage_token_extracted:
  assumes ds: "ds \<noteq> []" "\<forall>c\<in>set ds. is_digit c" and B: "pct_boundary pre"
  shows "\<exists>ps. extract_percentage (pre @ ds @ ''%'' @ post) = Some ps
             \<and> Some (of_nat (digits_val ds)) \<in> set ps"
proof -
  let ?X = "ds @ ''%'' @ post"
  have start: "\<exists>w. percentage_match_at ?X = Some w \<and> w \<noteq> [] \<and> w = ds @ ''%''
      \<and> ?X = w @ post"
    using pm_at_start[OF ds, of post] ds(1) by simp
  have "\<exists>ms w. scan_matches percentage_match_at (pre @ ?X)
      = ms @ w # scan_matches percentage_match_at post \<and> w = ds @ ''%''"
  proof (rule scan_through_prefix[where B = pct_boundary and Q = "\<lambda>w. w = ds @ ''%''"])
    show "\<exists>w. percentage_match_at ?X = Some w \<and> w \<noteq> [] \<and> w = ds @ ''%'' \<and> ?X = w @ post"
      by (rule start)
    show "\<And>c p. pct_boundary (c # p) \<Longrightarrow> pct_boundary p"
      by (rule pct_boundary_tail)
    show "\<And>p w. pct_boundary p \<Longrightarrow> p \<noteq> [] \<Longrightarrow> percentage_match_at (p @ ?X) = Some w \<Longrightarrow>
      w \<noteq> [] \<and> ((\<exists>p'. p = w @ p' \<and> pct_boundary p') \<or> (w = ds @ ''%'' \<and> p @ ?X = w @ post))"
      using pm_at_within by blast
    show "pct_boundary pre" by (rule B)
  qed
  then obtain ms where sc: "scan_matches percentage_match_at (pre @ ?X)
      = ms @ (ds @ ''%'') # scan_matches percentage_match_at post" by blast
  have v: "parseFloat (remove_first ''%'' (ds @ ''%'')) = Some (of_nat (digits_val ds))"
    using remove_first_pct[OF ds(2)] parseFloat_digits[OF ds] by simp
  show ?thesis
    unfolding extract_percentage_def Let_def sc using v by (simp add: image_iff)
qed

lemma currency_token_extracted:
  assumes ds: "ds \<noteq> []" "\<forall>c\<in>set ds. is_digit c" and B: "cur_boundary pre"
  shows "\<exists>cs. extract_currency (pre @ ds @ ''%'' @ post) = Some cs
             \<and> Some (of_nat (digits_val ds)) \<in> set cs"
proof -
  let ?X = "ds @ CHR ''%'' # post"
  let ?Q = "\<lambda>w. w = ds \<or> w = CHR ''$'' # ds"
  have "\<exists>ms w. scan_matches currency_match_at (pre @ ?X)
      = ms @ w # scan_matches currency_match_at (CHR ''%'' # post) \<and> ?Q w"
  proof (rule scan_through_prefix[where B = cur_boundary and Q = ?Q])
    show "\<exists>w. currency_match_at ?X = Some w \<and> w \<noteq> [] \<and> ?Q w \<and> ?X = w @ CHR ''%'' # post"
      using cm_at_start[OF ds, of post] ds(1) by simp
    show "\<And>c p. cur_boundary (c # p) \<Longrightarrow> cur_boundary p"
      by (rule cur_boundary_tail)
    show "\<And>p w. cur_boundary p \<Longrightarrow> p \<noteq> [] \<Longrightarrow> currency_match_at (p @ ?X) = Some w \<Longrightarrow>
      w \<noteq> [] \<and> ((\<exists>p'. p = w @ p' \<and> cur_boundary p') \<or> (?Q w \<and> p @ ?X = w @ CHR ''%'' # post))"
      using cm_at_within[OF ds] by blast
    show "cur_boundary pre" by (rule B)
  qed
  then obtain ms w where sc: "scan_matches currency_match_at (pre @ ?X)
      = ms @ w # scan_matches currency_match_at (CHR ''%'' # post)" and q: "?Q w" by blast
  have v: "currency_value w = Some (of_nat (digits_val ds))"
    using q currency_value_digits[OF ds] by auto
  have e: "pre @ ds @ ''%'' @ post = pre @ ?X" by simp
  show ?thesis
    unfolding extract_currency_def Let_def e sc using v by (simp add: image_iff)
qed


text \<open>
  C7: a token \<^verbatim>\<open>NN%\<close> (a run of digits followed by a percent sign, the digits not being the
  tail of a longer numeral) makes the percentage extractor report the number NN; a text
  without a percent sign has no percentage entity at all; and every text the extractor
  matches is a numeral of the input immediately followed by a percent sign.
\<close>

theorem percentage_needs_percent_sign:
  "(ds \<noteq> [] \<and> (\<forall>c\<in>set ds. is_digit c) \<and> pct_boundary pre \<longrightarrow>
      (\<exists>ps. extract_percentage (pre @ ds @ ''%'' @ post) = Some ps
             \<and> Some (of_nat (digits_val ds)) \<in> set ps))
   \<and> (CHR ''%'' \<notin> set msg \<longrightarrow> extract_percentage msg = None)
   \<and> (\<forall>w\<in>set (scan_matches percentage_match_at msg).
         \<exists>a num b. msg = a @ num @ ''%'' @ b \<and> w = num @ ''%'' \<and> num \<noteq> [] \<and> is_digit (hd num))"
proof -
  have two: "extract_percentage msg = None" if "CHR ''%'' \<notin> set msg"
  proof -
    have "scan_matches percentage_match_at msg = []"
      by (rule scan_no_match[of percentage_match_at "CHR ''%''"]) (use that pm_at_has_percent in auto)
    then show ?thesis by (simp add: extract_percentage_def)
  qed
  have three: "\<exists>a num b. msg = a @ num @ ''%'' @ b \<and> w = num @ ''%'' \<and> num \<noteq> [] \<and> is_digit (hd num)"
    if "w \<in> set (scan_matches percentage_match_at msg)" for w
  proof -
    from scan_member[OF that] obtain a b where ab: "msg = a @ b" "percentage_match_at b = Some w"
      by blast
    from pm_at_shape[OF ab(2)] obtain num rest where
      "b = num @ ''%'' @ rest" "w = num @ ''%''" "num \<noteq> []" "is_digit (hd num)" by blast
    then show ?thesis using ab(1) by blast
  qed
  show ?thesis using percentage_token_extracted two three by blast
qed

theorem percentage_needs_percent_sign_witness:
  "extract_percentage ''Need 15% off'' = Some [Some 15]
   \<and> digits_val ''15'' = 15
   \<and> extract_percentage ''30 seats'' = None
   \<and> scan_matches percentage_match_at ''Need 15% off'' = [''15%'']
   \<and> (\<exists>ps. extract_percentage (''Need '' @ ''15'' @ ''%'' @ '' off'') = Some ps
             \<and> Some (of_nat (digits_val ''15'')) \<in> set ps)
   \<and> (\<exists>a num b. ''Need 15% off'' = a @ num @ ''%'' @ b \<and> ''15%'' = num @ ''%'' \<and> num \<noteq> []
         \<and> is_digit (hd num))"
proof -
  have h: "''15'' \<noteq> [] \<and> (\<forall>c\<in>set ''15''. is_digit c) \<and> pct_boundary ''Need ''"
    by (simp add: is_digit_def pct_boundary_def)
  have n: "CHR ''%'' \<notin> set ''30 seats''" by simp
  have e: "extract_percentage ''Need 15% off'' = Some [Some 15]" by code_simp
  have d: "digits_val ''15'' = 15" by code_simp
  have sc: "scan_matches percentage_match_at ''Need 15% off'' = [''15%'']" by code_simp
  note t = percentage_needs_percent_sign[of "''15''" "''Need ''" "'' off''" "''30 seats''"]
  note u = percentage_needs_percent_sign[of "''15''" "''Need ''" "'' off''" "''Need 15% off''"]
  from t h have ex: "\<exists>ps. extract_percentage (''Need '' @ ''15'' @ ''%'' @ '' off'') = Some ps
             \<and> Some (of_nat (digits_val ''15'')) \<in> set ps"
    by blast
  from t n have none: "extract_percentage ''30 seats'' = None" by blast
  from u[THEN conjunct2, THEN conjunct2] sc
  have sh: "\<exists>a num b. ''Need 15% off'' = a @ num @ ''%'' @ b \<and> ''15%'' = num @ ''%''
      \<and> num \<noteq> [] \<and> is_digit (hd num)"
    by simp
  show ?thesis using e d none sc ex sh by (intro conjI)
qed

text \<open>
  C10, as the patterns have it: when the digits of a token \<^verbatim>\<open>NN%\<close> begin the text or follow
  a character that is not a digit, a comma or a decimal point, both the percentage list and
  the currency list contain the number NN.
\<close>

theorem percentage_also_currency:
  assumes "ds \<noteq> []" and "\<forall>c\<in>set ds. is_digit c" and "cur_boundary pre"
  shows "\<exists>ps cs. extract_percentage (pre @ ds @ ''%'' @ post) = Some ps
             \<and> Some (of_nat (digits_val ds)) \<in> set ps
             \<and> extract_currency (pre @ ds @ ''%'' @ post) = Some cs
             \<and> Some (of_nat (digits_val ds)) \<in> set cs"
  using percentage_token_extracted[of ds pre post] assms cur_boundary_pct[OF assms(3)]
    currency_token_extracted[OF assms, of post]
  by blast

theorem percentage_also_currency_witness:
  "digits_val ''15'' = 15
   \<and> extract_percentage ''Need 15% off'' = Some [Some 15]
   \<and> extract_currency ''Need 15% off'' = Some [Some 15]
   \<and> (\<exists>ps cs. extract_percentage (''Need '' @ ''15'' @ ''%'' @ '' off'') = Some ps
             \<and> Some (of_nat (digits_val ''15'')) \<in> set ps
             \<and> extract_currency (''Need '' @ ''15'' @ ''%'' @ '' off'') = Some cs
             \<and> Some (of_nat (digits_val ''15'')) \<in> set cs)"
proof -
  have h1: "''15'' \<noteq> []" by simp
  have h2: "\<forall>c\<in>set ''15''. is_digit c" by (simp add: is_digit_def)
  have h3: "cur_boundary ''Need ''" by (simp add: cur_boundary_def is_dc_def is_digit_def)
  have d: "digits_val ''15'' = 15" by code_simp
  have p: "extract_percentage ''Need 15% off'' = Some [Some 15]" by code_simp
  have c: "extract_currency ''Need 15% off'' = Some [Some 15]" by code_simp
  note t = percentage_also_currency[OF h1 h2 h3, of "'' off''"]
  show ?thesis using d p c t by (intro conjI)
qed

text \<open>
  C10 as stated fails where the currency pattern reads other digits than the percentage
  pattern: in \<^verbatim>\<open>1,5%\<close> the percentage is 5 and the currency amount 15, and in \<^verbatim>\<open>12.5%\<close> the
  percentage is 12.5 and the currency amounts are 12 and 5.
\<close>

theorem percentage_not_in_currency:
  "extract_percentage ''1,5%'' = Some [Some 5]
   \<and> extract_currency ''1,5%'' = Some [Some 15]
   \<and> extract_percentage ''12.5%'' = Some [Some (25 / 2)]
   \<and> extract_currency ''12.5%'' = Some [Some 12, Some 5]"
  by code_simp

end
